theory Spec2Isabelle
  imports Main
begin

section \<open>Exceptions, the logger, bytecode\<close>

text \<open>
  The C++ code signals failure by throwing; here a throw is a value. A
  \<open>std::runtime_error\<close> keeps its message; the message of a \<open>std::invalid_argument\<close>
  is written in no file at hand and is left out. An \<open>assert\<close> that fails
  and a read or write through a bad pointer or index are values too, so that every
  way out of a function is a branch of its model.
\<close>

datatype exn =
    Runtime_error string
  | Invalid_argument
  | Assertion_failure
  | Undefined_behaviour

text \<open>
  Modelled from the spec: the logger \<open>tchecker::log_t\<close> (utils/log.hh) is not part of
  the sources at hand. The spec gives it the operations \<open>error(context, message)\<close>,
  \<open>warning(context, message)\<close> and \<open>error_count()\<close>. The model keeps what was
  reported, in order; the error count is the number of reported errors.
\<close>

record log_t =
  log_errors :: "(string \<times> string) list"
  log_warnings :: "(string \<times> string) list"

definition log_error :: "string \<Rightarrow> string \<Rightarrow> log_t \<Rightarrow> log_t" where
  "log_error context_msg msg log = log\<lparr>log_errors := log_errors log @ [(context_msg, msg)]\<rparr>"

definition log_warning :: "string \<Rightarrow> string \<Rightarrow> log_t \<Rightarrow> log_t" where
  "log_warning context_msg msg log = log\<lparr>log_warnings := log_warnings log @ [(context_msg, msg)]\<rparr>"

definition error_count :: "log_t \<Rightarrow> nat" where
  "error_count log = length (log_errors log)"

text \<open>The local \<open>tchecker::log_t log;  // no output\<close> of the copy operations.\<close>

definition silent_log :: log_t where
  "silent_log = \<lparr>log_errors = [], log_warnings = []\<rparr>"

text \<open>
  A bytecode buffer is an array of instruction words (\<open>tchecker::bytecode_t\<close> is an
  integer type). A slot of the model holds a pointer to such a buffer: \<open>None\<close> is
  \<open>nullptr\<close>.
\<close>

type_synonym bytecode = "int list"

section \<open>The system graph\<close>

text \<open>
  \<open>model_t\<close> is a template over \<open>SYSTEM\<close>; it uses \<open>locations()\<close>,
  \<open>locations_count()\<close>, \<open>edges()\<close>, \<open>edges_count()\<close>, and per element \<open>id()\<close>,
  \<open>invariant()\<close>, \<open>guard()\<close> and \<open>statement()\<close>. The types of expressions
  (\<open>'e\<close>) and statements (\<open>'s\<close>) stay parameters. The event of an edge and the
  events flagged as weakly synchronized are what the static analysis reads.
\<close>

record 'e loc_t =
  loc_id :: nat
  loc_invariant :: 'e

record ('e, 's) edge_t =
  edge_id :: nat
  edge_event_id :: nat
  edge_guard :: 'e
  edge_statement :: 's

record ('e, 's) system_t =
  locations :: "'e loc_t list"
  edges :: "('e, 's) edge_t list"
  weakly_synchronized_events :: "nat list"

definition locations_count :: "('e, 's) system_t \<Rightarrow> nat" where
  "locations_count sys = length (locations sys)"

definition edges_count :: "('e, 's) system_t \<Rightarrow> nat" where
  "edges_count sys = length (edges sys)"

section \<open>What the model container calls\<close>

text \<open>
  The functions \<open>model_t\<close> calls and that live in other files are parameters, gathered
  in one record:
  \<^item> \<open>expression_to_string\<close>, \<open>statement_to_string\<close>: \<open>to_string()\<close> of an
    attribute;
  \<^item> \<open>intvars\<close>, \<open>clocks\<close>: the two methods of \<open>VM_VARIABLES\<close>, and
    \<open>vm_variables_default\<close>: a default-constructed \<open>VM_VARIABLES\<close>;
  \<^item> \<open>tchecker_typecheck_expression\<close>, \<open>tchecker_typecheck_statement\<close>: the two
    overloads of \<open>tchecker::typecheck\<close>. They return the typed tree (a fresh node,
    never null) and the messages they pass to their error callback, in order;
  \<^item> \<open>tchecker_compile_expression\<close>, \<open>tchecker_compile_statement\<close>: the two
    overloads of \<open>tchecker::compile\<close>. \<open>Inr\<close> is the buffer returned, \<open>Inl\<close>
    is \<open>what()\<close> of the exception thrown;
  \<^item> \<open>expression_is_bad\<close>, \<open>statement_is_bad\<close>: whether the type tag of a typed
    tree is \<open>bad\<close>;
  \<^item> \<open>guard_is_true\<close>: whether a guard is syntactically the constant true.
\<close>

record ('e, 's, 'te, 'ts, 'v, 'iv, 'cv) externals =
  expression_to_string :: "'e \<Rightarrow> string"
  statement_to_string :: "'s \<Rightarrow> string"
  intvars :: "'v \<Rightarrow> ('e, 's) system_t \<Rightarrow> 'iv"
  clocks :: "'v \<Rightarrow> ('e, 's) system_t \<Rightarrow> 'cv"
  vm_variables_default :: 'v
  tchecker_typecheck_expression :: "'e \<Rightarrow> 'iv \<Rightarrow> 'cv \<Rightarrow> 'te \<times> string list"
  tchecker_typecheck_statement :: "'s \<Rightarrow> 'iv \<Rightarrow> 'cv \<Rightarrow> 'ts \<times> string list"
  tchecker_compile_expression :: "'te \<Rightarrow> string + bytecode"
  tchecker_compile_statement :: "'ts \<Rightarrow> string + bytecode"
  expression_is_bad :: "'te \<Rightarrow> bool"
  statement_is_bad :: "'ts \<Rightarrow> bool"
  guard_is_true :: "'e \<Rightarrow> bool"

text \<open>
  Modelled from the spec: \<open>has_guarded_weakly_synchronized_event\<close>
  (fsm/details/static_analysis.hh) is not part of the sources at hand. The spec's rule is
  that every edge labelled by a weakly synchronized event has the constant true as its
  guard; the predicate holds when some edge breaks the rule.
\<close>

definition has_guarded_weakly_synchronized_event ::
  "('e, 's, 'te, 'ts, 'v, 'iv, 'cv) externals \<Rightarrow> ('e, 's) system_t \<Rightarrow> bool" where
  "has_guarded_weakly_synchronized_event X sys =
     list_ex (\<lambda>edge. edge_event_id edge \<in> set (weakly_synchronized_events sys)
                     \<and> \<not> guard_is_true X (edge_guard edge)) (edges sys)"

section \<open>The model container\<close>

text \<open>
  The data members of \<open>model_t\<close>, after the \<open>_system\<close> of its base class
  \<open>flat_system::model_t\<close>. Each container is a vector of owning pointers.
\<close>

record ('e, 's, 'te, 'ts, 'v) model_t =
  system :: "('e, 's) system_t"
  vm_variables :: 'v
  typed_invariants :: "'te option list"
  typed_guards :: "'te option list"
  typed_statements :: "'ts option list"
  invariants_bytecode :: "bytecode option list"
  guards_bytecode :: "bytecode option list"
  statements_bytecode :: "bytecode option list"

subsection \<open>Type checking one attribute\<close>

text \<open>
  The two private \<open>typecheck\<close> members: they call \<open>tchecker::typecheck\<close> with a
  callback that reports each message as an error under \<open>context_msg\<close>.
\<close>

definition typecheck_expression ::
  "('e, 's, 'te, 'ts, 'v, 'iv, 'cv) externals \<Rightarrow> 'v \<Rightarrow> 'e \<Rightarrow> ('e, 's) system_t \<Rightarrow> log_t \<Rightarrow> string
     \<Rightarrow> 'te \<times> log_t" where
  "typecheck_expression X vmv expr sys log context_msg =
     (case tchecker_typecheck_expression X expr (intvars X vmv sys) (clocks X vmv sys) of
        (typed, msgs) \<Rightarrow> (typed, foldl (\<lambda>l msg. log_error context_msg msg l) log msgs))"

definition typecheck_statement ::
  "('e, 's, 'te, 'ts, 'v, 'iv, 'cv) externals \<Rightarrow> 'v \<Rightarrow> 's \<Rightarrow> ('e, 's) system_t \<Rightarrow> log_t \<Rightarrow> string
     \<Rightarrow> 'ts \<times> log_t" where
  "typecheck_statement X vmv stmt sys log context_msg =
     (case tchecker_typecheck_statement X stmt (intvars X vmv sys) (clocks X vmv sys) of
        (typed, msgs) \<Rightarrow> (typed, foldl (\<lambda>l msg. log_error context_msg msg l) log msgs))"

subsection \<open>The loop of the three compile functions\<close>

text \<open>
  \<open>compile_invariants\<close>, \<open>compile_guards\<close> and \<open>compile_statements\<close> run the same
  loop, over locations or edges \<open>x\<close>:
  \<^verbatim>\<open>
    _typed[x->id()] = typecheck(attribute(x), system, log, context(x));
    try { _bytecode[x->id()] = tchecker::compile(*_typed[x->id()]); }
    catch (std::exception const & e) { log.error(context(x), e.what()); }
  \<close>
  \<open>ident\<close> is \<open>id()\<close>, \<open>ctx\<close> the context message, \<open>tc\<close> the call of
  \<open>typecheck\<close> and \<open>cmp\<close> the call of \<open>tchecker::compile\<close>. An index at or
  beyond the size of a vector is undefined behaviour.
\<close>

fun compile_loop ::
  "('a \<Rightarrow> nat) \<Rightarrow> ('a \<Rightarrow> string) \<Rightarrow> ('a \<Rightarrow> log_t \<Rightarrow> string \<Rightarrow> 't \<times> log_t) \<Rightarrow> ('t \<Rightarrow> string + bytecode)
     \<Rightarrow> 'a list \<Rightarrow> 't option list \<Rightarrow> bytecode option list \<Rightarrow> log_t
     \<Rightarrow> (exn + 't option list \<times> bytecode option list) \<times> log_t" where
  "compile_loop ident ctx tc cmp [] typed bc log = (Inr (typed, bc), log)"
| "compile_loop ident ctx tc cmp (x # xs) typed bc log =
     (case tc x log (ctx x) of
        (t, log1) \<Rightarrow>
          if ident x < length typed then
            (case cmp t of
               Inr b \<Rightarrow>
                 if ident x < length bc
                 then compile_loop ident ctx tc cmp xs (typed[ident x := Some t]) (bc[ident x := Some b]) log1
                 else (Inl Undefined_behaviour, log1)
             | Inl what \<Rightarrow>
                 compile_loop ident ctx tc cmp xs (typed[ident x := Some t]) bc (log_error (ctx x) what log1))
          else (Inl Undefined_behaviour, log1))"

subsection \<open>compile_invariants, compile_guards, compile_statements, compile\<close>

definition invariant_context ::
  "('e, 's, 'te, 'ts, 'v, 'iv, 'cv) externals \<Rightarrow> 'e loc_t \<Rightarrow> string" where
  "invariant_context X loc = ''Attribute invariant: '' @ expression_to_string X (loc_invariant loc)"

definition guard_context ::
  "('e, 's, 'te, 'ts, 'v, 'iv, 'cv) externals \<Rightarrow> ('e, 's) edge_t \<Rightarrow> string" where
  "guard_context X edge = ''Attribute provided: '' @ expression_to_string X (edge_guard edge)"

definition statement_context ::
  "('e, 's, 'te, 'ts, 'v, 'iv, 'cv) externals \<Rightarrow> ('e, 's) edge_t \<Rightarrow> string" where
  "statement_context X edge = ''Attribute do: '' @ statement_to_string X (edge_statement edge)"

definition compile_invariants ::
  "('e, 's, 'te, 'ts, 'v, 'iv, 'cv) externals \<Rightarrow> ('e, 's) system_t \<Rightarrow> ('e, 's, 'te, 'ts, 'v) model_t
     \<Rightarrow> log_t \<Rightarrow> (exn + ('e, 's, 'te, 'ts, 'v) model_t) \<times> log_t" where
  "compile_invariants X sys m log =
     (if typed_invariants m \<noteq> [] then (Inl (Runtime_error ''typed invariants not empty''), log)
      else if invariants_bytecode m \<noteq> [] then (Inl (Runtime_error ''invariants bytecode not empty''), log)
      else
        (case compile_loop loc_id (invariant_context X)
                (\<lambda>loc. typecheck_expression X (vm_variables m) (loc_invariant loc) sys)
                (tchecker_compile_expression X)
                (locations sys)
                (replicate (locations_count sys) None)
                (replicate (locations_count sys) None) log of
           (Inl e, log') \<Rightarrow> (Inl e, log')
         | (Inr (typed, bc), log') \<Rightarrow>
             (Inr (m\<lparr>typed_invariants := typed, invariants_bytecode := bc\<rparr>), log')))"

definition compile_guards ::
  "('e, 's, 'te, 'ts, 'v, 'iv, 'cv) externals \<Rightarrow> ('e, 's) system_t \<Rightarrow> ('e, 's, 'te, 'ts, 'v) model_t
     \<Rightarrow> log_t \<Rightarrow> (exn + ('e, 's, 'te, 'ts, 'v) model_t) \<times> log_t" where
  "compile_guards X sys m log =
     (if typed_guards m \<noteq> [] then (Inl (Runtime_error ''typed guards not empty''), log)
      else if guards_bytecode m \<noteq> [] then (Inl (Runtime_error ''guards bytecode not empty''), log)
      else
        (case compile_loop edge_id (guard_context X)
                (\<lambda>edge. typecheck_expression X (vm_variables m) (edge_guard edge) sys)
                (tchecker_compile_expression X)
                (edges sys)
                (replicate (edges_count sys) None)
                (replicate (edges_count sys) None) log of
           (Inl e, log') \<Rightarrow> (Inl e, log')
         | (Inr (typed, bc), log') \<Rightarrow>
             (Inr (m\<lparr>typed_guards := typed, guards_bytecode := bc\<rparr>), log')))"

definition compile_statements ::
  "('e, 's, 'te, 'ts, 'v, 'iv, 'cv) externals \<Rightarrow> ('e, 's) system_t \<Rightarrow> ('e, 's, 'te, 'ts, 'v) model_t
     \<Rightarrow> log_t \<Rightarrow> (exn + ('e, 's, 'te, 'ts, 'v) model_t) \<times> log_t" where
  "compile_statements X sys m log =
     (if typed_statements m \<noteq> [] then (Inl (Runtime_error ''typed statements not empty''), log)
      else if statements_bytecode m \<noteq> [] then (Inl (Runtime_error ''statements bytecode not empty''), log)
      else
        (case compile_loop edge_id (statement_context X)
                (\<lambda>edge. typecheck_statement X (vm_variables m) (edge_statement edge) sys)
                (tchecker_compile_statement X)
                (edges sys)
                (replicate (edges_count sys) None)
                (replicate (edges_count sys) None) log of
           (Inl e, log') \<Rightarrow> (Inl e, log')
         | (Inr (typed, bc), log') \<Rightarrow>
             (Inr (m\<lparr>typed_statements := typed, statements_bytecode := bc\<rparr>), log')))"

text \<open>\<open>compile\<close>: the three passes in a row; an exception of one ends the call.\<close>

definition compile ::
  "('e, 's, 'te, 'ts, 'v, 'iv, 'cv) externals \<Rightarrow> ('e, 's) system_t \<Rightarrow> ('e, 's, 'te, 'ts, 'v) model_t
     \<Rightarrow> log_t \<Rightarrow> (exn + ('e, 's, 'te, 'ts, 'v) model_t) \<times> log_t" where
  "compile X sys m log =
     (case compile_invariants X sys m log of
        (Inl e, log1) \<Rightarrow> (Inl e, log1)
      | (Inr m1, log1) \<Rightarrow>
          (case compile_guards X sys m1 log1 of
             (Inl e, log2) \<Rightarrow> (Inl e, log2)
           | (Inr m2, log2) \<Rightarrow> compile_statements X sys m2 log2))"

subsection \<open>Constructor\<close>

text \<open>
  The members of an object under construction: the base class holds the system, the
  \<open>VM_VARIABLES\<close> member is default-constructed and the six vectors are empty.
\<close>

definition fresh_model ::
  "('e, 's, 'te, 'ts, 'v, 'iv, 'cv) externals \<Rightarrow> ('e, 's) system_t \<Rightarrow> ('e, 's, 'te, 'ts, 'v) model_t" where
  "fresh_model X sys =
     \<lparr>system = sys, vm_variables = vm_variables_default X,
      typed_invariants = [], typed_guards = [], typed_statements = [],
      invariants_bytecode = [], guards_bytecode = [], statements_bytecode = []\<rparr>"

text \<open>
  \<open>model_t(SYSTEM * system, tchecker::log_t & log)\<close>. The logger is the caller's: what
  was reported stays reported when the constructor throws, so the logger is returned
  beside the outcome.
\<close>

definition model_t ::
  "('e, 's, 'te, 'ts, 'v, 'iv, 'cv) externals \<Rightarrow> ('e, 's) system_t \<Rightarrow> log_t
     \<Rightarrow> (exn + ('e, 's, 'te, 'ts, 'v) model_t) \<times> log_t" where
  "model_t X sys log =
     (if has_guarded_weakly_synchronized_event X sys
      then (Inl (Runtime_error ''Weakly synchronized event shall not be guarded''), log)
      else
        (case compile X (system (fresh_model X sys)) (fresh_model X sys) log of
           (Inl e, log') \<Rightarrow> (Inl e, log')
         | (Inr m, log') \<Rightarrow>
             if error_count log' > 0
             then (Inl (Runtime_error ''System compilation failure''), log')
             else (Inr m, log')))"

subsection \<open>Accessors\<close>

text \<open>
  Each accessor asserts that the index is below the size of the bytecode vector, then
  reads its own vector. The three typed accessors return a reference, \<open>* _typed[id]\<close>:
  a null slot cannot be dereferenced. The three bytecode accessors return the pointer.
\<close>

definition typed_invariant :: "('e, 's, 'te, 'ts, 'v) model_t \<Rightarrow> nat \<Rightarrow> exn + 'te" where
  "typed_invariant m lid =
     (if lid < length (invariants_bytecode m) then
        (if lid < length (typed_invariants m) then
           (case typed_invariants m ! lid of Some t \<Rightarrow> Inr t | None \<Rightarrow> Inl Undefined_behaviour)
         else Inl Undefined_behaviour)
      else Inl Assertion_failure)"

definition typed_guard :: "('e, 's, 'te, 'ts, 'v) model_t \<Rightarrow> nat \<Rightarrow> exn + 'te" where
  "typed_guard m eid =
     (if eid < length (guards_bytecode m) then
        (if eid < length (typed_guards m) then
           (case typed_guards m ! eid of Some t \<Rightarrow> Inr t | None \<Rightarrow> Inl Undefined_behaviour)
         else Inl Undefined_behaviour)
      else Inl Assertion_failure)"

definition typed_statement :: "('e, 's, 'te, 'ts, 'v) model_t \<Rightarrow> nat \<Rightarrow> exn + 'ts" where
  "typed_statement m eid =
     (if eid < length (statements_bytecode m) then
        (if eid < length (typed_statements m) then
           (case typed_statements m ! eid of Some t \<Rightarrow> Inr t | None \<Rightarrow> Inl Undefined_behaviour)
         else Inl Undefined_behaviour)
      else Inl Assertion_failure)"

definition invariant_bytecode :: "('e, 's, 'te, 'ts, 'v) model_t \<Rightarrow> nat \<Rightarrow> exn + bytecode option" where
  "invariant_bytecode m lid =
     (if lid < length (invariants_bytecode m) then Inr (invariants_bytecode m ! lid)
      else Inl Assertion_failure)"

definition guard_bytecode :: "('e, 's, 'te, 'ts, 'v) model_t \<Rightarrow> nat \<Rightarrow> exn + bytecode option" where
  "guard_bytecode m eid =
     (if eid < length (guards_bytecode m) then Inr (guards_bytecode m ! eid)
      else Inl Assertion_failure)"

definition statement_bytecode :: "('e, 's, 'te, 'ts, 'v) model_t \<Rightarrow> nat \<Rightarrow> exn + bytecode option" where
  "statement_bytecode m eid =
     (if eid < length (statements_bytecode m) then Inr (statements_bytecode m ! eid)
      else Inl Assertion_failure)"

subsection \<open>free_memory, copy and move\<close>

text \<open>\<open>free_memory\<close> deletes what the six vectors point to and clears them.\<close>

definition free_memory :: "('e, 's, 'te, 'ts, 'v) model_t \<Rightarrow> ('e, 's, 'te, 'ts, 'v) model_t" where
  "free_memory m =
     m\<lparr>typed_invariants := [], typed_guards := [], typed_statements := [],
       invariants_bytecode := [], guards_bytecode := [], statements_bytecode := []\<rparr>"

text \<open>
  The copy constructor. Its initialiser list names the base class only, so the
  \<open>VM_VARIABLES\<close> member is default-constructed and the vectors are empty; the body
  compiles with a local logger and asserts that it counted no error.

  Modelled from the spec: the copy constructor and the copy assignment of the base class
  \<open>flat_system::model_t\<close> are not part of the sources at hand. The spec's deep copy is
  compiled afresh from the system of the source, so the base of the copy holds a system
  equal to the source's.
\<close>

definition model_t_copy ::
  "('e, 's, 'te, 'ts, 'v, 'iv, 'cv) externals \<Rightarrow> ('e, 's, 'te, 'ts, 'v) model_t
     \<Rightarrow> exn + ('e, 's, 'te, 'ts, 'v) model_t" where
  "model_t_copy X model =
     (case compile X (system (fresh_model X (system model))) (fresh_model X (system model)) silent_log of
        (Inl e, log) \<Rightarrow> Inl e
      | (Inr this, log) \<Rightarrow> if error_count log = 0 then Inr this else Inl Assertion_failure)"

text \<open>
  The copy assignment \<open>operator=(model_t const &)\<close>. \<open>same\<close> says that \<open>this\<close>
  and \<open>model\<close> are one object (\<open>this == &model\<close>); then nothing is done. Otherwise
  the vectors are freed, the base class and the \<open>VM_VARIABLES\<close> member are assigned,
  and \<open>compile\<close> runs on \<open>*this->_system\<close>, which by then is the system of
  \<open>model\<close>.
\<close>

definition assign_copy ::
  "('e, 's, 'te, 'ts, 'v, 'iv, 'cv) externals \<Rightarrow> bool \<Rightarrow> ('e, 's, 'te, 'ts, 'v) model_t
     \<Rightarrow> ('e, 's, 'te, 'ts, 'v) model_t \<Rightarrow> exn + ('e, 's, 'te, 'ts, 'v) model_t" where
  "assign_copy X same this model =
     (if same then Inr this
      else
        (case compile X (system model)
                ((free_memory this)\<lparr>system := system model, vm_variables := vm_variables model\<rparr>)
                silent_log of
           (Inl e, log) \<Rightarrow> Inl e
         | (Inr this', log) \<Rightarrow> if error_count log = 0 then Inr this' else Inl Assertion_failure))"

text \<open>
  The move constructor and the move assignment are defaulted: each member is moved. A
  moved-from \<open>std::vector\<close> is empty and its buffer belongs to the destination. The
  result is the destination and what is left of the source. What moving leaves in the
  source's base class and in its \<open>VM_VARIABLES\<close> is decided outside these sources; the
  model leaves both fields as they were. The move assignment is between two distinct
  objects.
\<close>

definition moved_from :: "('e, 's, 'te, 'ts, 'v) model_t \<Rightarrow> ('e, 's, 'te, 'ts, 'v) model_t" where
  "moved_from model =
     model\<lparr>typed_invariants := [], typed_guards := [], typed_statements := [],
           invariants_bytecode := [], guards_bytecode := [], statements_bytecode := []\<rparr>"

definition model_t_move ::
  "('e, 's, 'te, 'ts, 'v) model_t \<Rightarrow> ('e, 's, 'te, 'ts, 'v) model_t \<times> ('e, 's, 'te, 'ts, 'v) model_t" where
  "model_t_move model = (model, moved_from model)"

definition assign_move ::
  "('e, 's, 'te, 'ts, 'v) model_t \<Rightarrow> ('e, 's, 'te, 'ts, 'v) model_t
     \<Rightarrow> ('e, 's, 'te, 'ts, 'v) model_t \<times> ('e, 's, 'te, 'ts, 'v) model_t" where
  "assign_move this model =
     (this\<lparr>system := system model, vm_variables := vm_variables model,
           typed_invariants := typed_invariants model, typed_guards := typed_guards model,
           typed_statements := typed_statements model,
           invariants_bytecode := invariants_bytecode model,
           guards_bytecode := guards_bytecode model,
           statements_bytecode := statements_bytecode model\<rparr>,
      moved_from model)"

section \<open>Statements\<close>

text \<open>
  Modelled from the spec: expression.hh, which declares \<open>expression_t\<close> and
  \<open>lvalue_expression_t\<close>, is not part of the sources at hand. The spec's data model
  gives an expression node as a tagged variant: a constant, a variable reference, an array
  access (a base variable reference and an index expression), a unary operator (negate,
  logical not) on one subexpression, a binary operator (arithmetic, comparison,
  conjunction) on two; an lvalue is a variable reference or an array access. Every node is
  an object of its own: \<open>'a\<close> is the identity of a node, its address.
\<close>

datatype unary_operator = EXPR_OP_NEG | EXPR_OP_LNOT

datatype binary_operator =
    EXPR_OP_PLUS | EXPR_OP_MINUS | EXPR_OP_TIMES | EXPR_OP_DIV | EXPR_OP_MOD
  | EXPR_OP_LT | EXPR_OP_LE | EXPR_OP_EQ | EXPR_OP_NEQ | EXPR_OP_GE | EXPR_OP_GT
  | EXPR_OP_LAND

datatype 'a expression =
    Int_expression 'a int
  | Var_expression 'a string
  | Array_expression 'a 'a string "'a expression"
  | Unary_expression 'a unary_operator "'a expression"
  | Binary_expression 'a binary_operator "'a expression" "'a expression"

datatype 'a lvalue_expression =
    Var_lvalue 'a string
  | Array_lvalue 'a 'a string "'a expression"

text \<open>
  The three classes of statement.hh: \<open>nop_statement_t\<close>, \<open>assign_statement_t\<close> with
  its \<open>_lvalue\<close> and \<open>_rvalue\<close>, \<open>sequence_statement_t\<close> with its \<open>_first\<close> and
  \<open>_second\<close>. A parent owns its children, so a child is a subtree.
\<close>

datatype 'a statement =
    Nop_statement 'a
  | Assign_statement 'a "'a lvalue_expression" "'a expression"
  | Sequence_statement 'a "'a statement" "'a statement"

text \<open>
  Modelled from the spec: statement.cc, which defines the constructors, \<open>do_clone\<close>
  and \<open>do_output\<close> that statement.hh declares, is not part of the sources at hand. The
  constructors follow the contract written at their declaration (a null child throws
  \<open>std::invalid_argument\<close>, the node takes ownership of its children) and the spec's
  structural precondition. \<open>this\<close> is the address of the node under construction, a
  pointer argument is \<open>None\<close> when it is null.
\<close>

definition nop_statement_t :: "'a \<Rightarrow> exn + 'a statement" where
  "nop_statement_t this = Inr (Nop_statement this)"

definition assign_statement_t ::
  "'a \<Rightarrow> 'a lvalue_expression option \<Rightarrow> 'a expression option \<Rightarrow> exn + 'a statement" where
  "assign_statement_t this lvalue rvalue =
     (case lvalue of
        None \<Rightarrow> Inl Invalid_argument
      | Some l \<Rightarrow>
          (case rvalue of
             None \<Rightarrow> Inl Invalid_argument
           | Some r \<Rightarrow> Inr (Assign_statement this l r)))"

definition sequence_statement_t ::
  "'a \<Rightarrow> 'a statement option \<Rightarrow> 'a statement option \<Rightarrow> exn + 'a statement" where
  "sequence_statement_t this first second =
     (case first of
        None \<Rightarrow> Inl Invalid_argument
      | Some f \<Rightarrow>
          (case second of
             None \<Rightarrow> Inl Invalid_argument
           | Some s \<Rightarrow> Inr (Sequence_statement this f s)))"

text \<open>
  The inline accessors \<open>lvalue()\<close>, \<open>rvalue()\<close>, \<open>first()\<close> and \<open>second()\<close>.
  Each is a member of one class; on a node of another class there is nothing to read.
\<close>

fun lvalue :: "'a statement \<Rightarrow> 'a lvalue_expression option" where
  "lvalue (Assign_statement a l r) = Some l"
| "lvalue s = None"

fun rvalue :: "'a statement \<Rightarrow> 'a expression option" where
  "rvalue (Assign_statement a l r) = Some r"
| "rvalue s = None"

fun first :: "'a statement \<Rightarrow> 'a statement option" where
  "first (Sequence_statement a f s) = Some f"
| "first s = None"

fun second :: "'a statement \<Rightarrow> 'a statement option" where
  "second (Sequence_statement a f s) = Some s"
| "second s = None"

text \<open>
  Modelled from the spec: the output of a statement. The spec fixes no concrete syntax, so
  the text of \<open>nop\<close>, the way an assignment joins the texts of its two sides and a
  sequence those of its two parts, and the printers of expressions are parameters. A
  printer of expressions reads the tree and not the addresses of its nodes.
  \<open>to_string\<close> is the text \<open>do_output\<close> writes.
\<close>

record printer =
  output_nop :: string
  output_assign :: "string \<Rightarrow> string \<Rightarrow> string"
  output_sequence :: "string \<Rightarrow> string \<Rightarrow> string"
  output_lvalue :: "unit lvalue_expression \<Rightarrow> string"
  output_expression :: "unit expression \<Rightarrow> string"

fun do_output :: "printer \<Rightarrow> 'a statement \<Rightarrow> string" where
  "do_output P (Nop_statement a) = output_nop P"
| "do_output P (Assign_statement a l r) =
     output_assign P (output_lvalue P (map_lvalue_expression (\<lambda>x. ()) l))
       (output_expression P (map_expression (\<lambda>x. ()) r))"
| "do_output P (Sequence_statement a f s) =
     output_sequence P (do_output P f) (do_output P s)"

definition to_string :: "printer \<Rightarrow> 'a statement \<Rightarrow> string" where
  "to_string P s = do_output P s"

text \<open>
  Modelled from the spec: cloning is a deep copy. Every node of the copy is allocated by
  \<open>new\<close>; the allocator is the next free address \<open>n\<close>, and every live node has an
  address below it. A clone function returns the copy and the next free address.
  \<open>clone\<close> calls the virtual \<open>do_clone\<close>.
\<close>

fun clone_expression :: "nat expression \<Rightarrow> nat \<Rightarrow> nat expression \<times> nat" where
  "clone_expression (Int_expression a k) n = (Int_expression n k, Suc n)"
| "clone_expression (Var_expression a x) n = (Var_expression n x, Suc n)"
| "clone_expression (Array_expression a v x off) n =
     (case clone_expression off (Suc (Suc n)) of
        (off', n') \<Rightarrow> (Array_expression n (Suc n) x off', n'))"
| "clone_expression (Unary_expression a op e) n =
     (case clone_expression e (Suc n) of
        (e', n') \<Rightarrow> (Unary_expression n op e', n'))"
| "clone_expression (Binary_expression a op l r) n =
     (case clone_expression l (Suc n) of
        (l', n1) \<Rightarrow>
          (case clone_expression r n1 of
             (r', n') \<Rightarrow> (Binary_expression n op l' r', n')))"

fun clone_lvalue_expression :: "nat lvalue_expression \<Rightarrow> nat \<Rightarrow> nat lvalue_expression \<times> nat" where
  "clone_lvalue_expression (Var_lvalue a x) n = (Var_lvalue n x, Suc n)"
| "clone_lvalue_expression (Array_lvalue a v x off) n =
     (case clone_expression off (Suc (Suc n)) of
        (off', n') \<Rightarrow> (Array_lvalue n (Suc n) x off', n'))"

fun do_clone :: "nat statement \<Rightarrow> nat \<Rightarrow> nat statement \<times> nat" where
  "do_clone (Nop_statement a) n = (Nop_statement n, Suc n)"
| "do_clone (Assign_statement a l r) n =
     (case clone_lvalue_expression l (Suc n) of
        (l', n1) \<Rightarrow>
          (case clone_expression r n1 of
             (r', n') \<Rightarrow> (Assign_statement n l' r', n')))"
| "do_clone (Sequence_statement a f s) n =
     (case do_clone f (Suc n) of
        (f', n1) \<Rightarrow>
          (case do_clone s n1 of
             (s', n') \<Rightarrow> (Sequence_statement n f' s', n')))"

definition clone :: "nat statement \<Rightarrow> nat \<Rightarrow> nat statement \<times> nat" where
  "clone s n = do_clone s n"

section \<open>The loop as the spec words it\<close>

text \<open>
  The spec says of construction: run the type checker, then (if the typed tree is not
  \<open>bad\<close>) the bytecode compiler. \<open>compile_loop_spec\<close> and
  \<open>compile_invariants_spec\<close> follow these words: a bad typed tree is stored and the
  compiler is not called on it. They are compared with the loop of the code.
\<close>

fun compile_loop_spec ::
  "('t \<Rightarrow> bool) \<Rightarrow> ('a \<Rightarrow> nat) \<Rightarrow> ('a \<Rightarrow> string) \<Rightarrow> ('a \<Rightarrow> log_t \<Rightarrow> string \<Rightarrow> 't \<times> log_t)
     \<Rightarrow> ('t \<Rightarrow> string + bytecode)
     \<Rightarrow> 'a list \<Rightarrow> 't option list \<Rightarrow> bytecode option list \<Rightarrow> log_t
     \<Rightarrow> (exn + 't option list \<times> bytecode option list) \<times> log_t" where
  "compile_loop_spec bad ident ctx tc cmp [] typed bc log = (Inr (typed, bc), log)"
| "compile_loop_spec bad ident ctx tc cmp (x # xs) typed bc log =
     (case tc x log (ctx x) of
        (t, log1) \<Rightarrow>
          if ident x < length typed then
            if bad t
            then compile_loop_spec bad ident ctx tc cmp xs (typed[ident x := Some t]) bc log1
            else
              (case cmp t of
                 Inr b \<Rightarrow>
                   if ident x < length bc
                   then compile_loop_spec bad ident ctx tc cmp xs (typed[ident x := Some t])
                          (bc[ident x := Some b]) log1
                   else (Inl Undefined_behaviour, log1)
               | Inl what \<Rightarrow>
                   compile_loop_spec bad ident ctx tc cmp xs (typed[ident x := Some t]) bc
                     (log_error (ctx x) what log1))
          else (Inl Undefined_behaviour, log1))"

definition compile_invariants_spec ::
  "('e, 's, 'te, 'ts, 'v, 'iv, 'cv) externals \<Rightarrow> ('e, 's) system_t \<Rightarrow> ('e, 's, 'te, 'ts, 'v) model_t
     \<Rightarrow> log_t \<Rightarrow> (exn + ('e, 's, 'te, 'ts, 'v) model_t) \<times> log_t" where
  "compile_invariants_spec X sys m log =
     (if typed_invariants m \<noteq> [] then (Inl (Runtime_error ''typed invariants not empty''), log)
      else if invariants_bytecode m \<noteq> [] then (Inl (Runtime_error ''invariants bytecode not empty''), log)
      else
        (case compile_loop_spec (expression_is_bad X) loc_id (invariant_context X)
                (\<lambda>loc. typecheck_expression X (vm_variables m) (loc_invariant loc) sys)
                (tchecker_compile_expression X)
                (locations sys)
                (replicate (locations_count sys) None)
                (replicate (locations_count sys) None) log of
           (Inl e, log') \<Rightarrow> (Inl e, log')
         | (Inr (typed, bc), log') \<Rightarrow>
             (Inr (m\<lparr>typed_invariants := typed, invariants_bytecode := bc\<rparr>), log')))"

section \<open>What the compile pass computes\<close>

text \<open>
  Closed forms of the loop, used to state the theorems: the log after reporting a list of
  errors, the two vectors after the loop (each element stores at its own index), and the
  errors one attribute and one pass report.
\<close>

definition add_errors :: "(string \<times> string) list \<Rightarrow> log_t \<Rightarrow> log_t" where
  "add_errors es log = log\<lparr>log_errors := log_errors log @ es\<rparr>"

definition loop_typed :: "('a \<Rightarrow> nat) \<Rightarrow> ('a \<Rightarrow> 't) \<Rightarrow> 'a list \<Rightarrow> 't option list \<Rightarrow> 't option list" where
  "loop_typed ident tt xs typed = foldl (\<lambda>ty x. ty[ident x := Some (tt x)]) typed xs"

definition loop_bytecode ::
  "('a \<Rightarrow> nat) \<Rightarrow> ('a \<Rightarrow> 't) \<Rightarrow> ('t \<Rightarrow> string + bytecode) \<Rightarrow> 'a list \<Rightarrow> bytecode option list \<Rightarrow> bytecode option list" where
  "loop_bytecode ident tt cmp xs bc =
     foldl (\<lambda>bc x. case cmp (tt x) of Inr b \<Rightarrow> bc[ident x := Some b] | Inl what \<Rightarrow> bc) bc xs"

definition attribute_errors :: "string \<Rightarrow> string list \<Rightarrow> string + bytecode \<Rightarrow> (string \<times> string) list" where
  "attribute_errors c msgs r = map (Pair c) msgs @ (case r of Inl what \<Rightarrow> [(c, what)] | Inr b \<Rightarrow> [])"

definition loop_errors ::
  "('a \<Rightarrow> string) \<Rightarrow> ('a \<Rightarrow> 't) \<Rightarrow> ('a \<Rightarrow> string list) \<Rightarrow> ('t \<Rightarrow> string + bytecode) \<Rightarrow> 'a list \<Rightarrow> (string \<times> string) list" where
  "loop_errors ctx tt tm cmp xs = concat (map (\<lambda>x. attribute_errors (ctx x) (tm x) (cmp (tt x))) xs)"

text \<open>
  The typed tree and the messages that \<open>tchecker::typecheck\<close> gives for one attribute of a
  system, the errors of the three passes, and the six vectors after \<open>compile\<close>.
\<close>

definition typed_expression_of ::
  "('e, 's, 'te, 'ts, 'v, 'iv, 'cv) externals \<Rightarrow> 'v \<Rightarrow> ('e, 's) system_t \<Rightarrow> 'e \<Rightarrow> 'te" where
  "typed_expression_of X vmv sys e =
     fst (tchecker_typecheck_expression X e (intvars X vmv sys) (clocks X vmv sys))"

definition expression_messages ::
  "('e, 's, 'te, 'ts, 'v, 'iv, 'cv) externals \<Rightarrow> 'v \<Rightarrow> ('e, 's) system_t \<Rightarrow> 'e \<Rightarrow> string list" where
  "expression_messages X vmv sys e =
     snd (tchecker_typecheck_expression X e (intvars X vmv sys) (clocks X vmv sys))"

definition typed_statement_of ::
  "('e, 's, 'te, 'ts, 'v, 'iv, 'cv) externals \<Rightarrow> 'v \<Rightarrow> ('e, 's) system_t \<Rightarrow> 's \<Rightarrow> 'ts" where
  "typed_statement_of X vmv sys s =
     fst (tchecker_typecheck_statement X s (intvars X vmv sys) (clocks X vmv sys))"

definition statement_messages ::
  "('e, 's, 'te, 'ts, 'v, 'iv, 'cv) externals \<Rightarrow> 'v \<Rightarrow> ('e, 's) system_t \<Rightarrow> 's \<Rightarrow> string list" where
  "statement_messages X vmv sys s =
     snd (tchecker_typecheck_statement X s (intvars X vmv sys) (clocks X vmv sys))"

definition invariants_errors ::
  "('e, 's, 'te, 'ts, 'v, 'iv, 'cv) externals \<Rightarrow> 'v \<Rightarrow> ('e, 's) system_t \<Rightarrow> (string \<times> string) list" where
  "invariants_errors X vmv sys =
     loop_errors (invariant_context X) (\<lambda>l. typed_expression_of X vmv sys (loc_invariant l))
       (\<lambda>l. expression_messages X vmv sys (loc_invariant l)) (tchecker_compile_expression X)
       (locations sys)"

definition guards_errors ::
  "('e, 's, 'te, 'ts, 'v, 'iv, 'cv) externals \<Rightarrow> 'v \<Rightarrow> ('e, 's) system_t \<Rightarrow> (string \<times> string) list" where
  "guards_errors X vmv sys =
     loop_errors (guard_context X) (\<lambda>e. typed_expression_of X vmv sys (edge_guard e))
       (\<lambda>e. expression_messages X vmv sys (edge_guard e)) (tchecker_compile_expression X)
       (edges sys)"

definition statements_errors ::
  "('e, 's, 'te, 'ts, 'v, 'iv, 'cv) externals \<Rightarrow> 'v \<Rightarrow> ('e, 's) system_t \<Rightarrow> (string \<times> string) list" where
  "statements_errors X vmv sys =
     loop_errors (statement_context X) (\<lambda>e. typed_statement_of X vmv sys (edge_statement e))
       (\<lambda>e. statement_messages X vmv sys (edge_statement e)) (tchecker_compile_statement X)
       (edges sys)"

definition system_errors ::
  "('e, 's, 'te, 'ts, 'v, 'iv, 'cv) externals \<Rightarrow> 'v \<Rightarrow> ('e, 's) system_t \<Rightarrow> (string \<times> string) list" where
  "system_errors X vmv sys =
     invariants_errors X vmv sys @ guards_errors X vmv sys @ statements_errors X vmv sys"

definition compiled_model ::
  "('e, 's, 'te, 'ts, 'v, 'iv, 'cv) externals \<Rightarrow> ('e, 's) system_t \<Rightarrow> ('e, 's, 'te, 'ts, 'v) model_t
     \<Rightarrow> ('e, 's, 'te, 'ts, 'v) model_t" where
  "compiled_model X sys m =
     m\<lparr>typed_invariants :=
         loop_typed loc_id (\<lambda>l. typed_expression_of X (vm_variables m) sys (loc_invariant l))
           (locations sys) (replicate (locations_count sys) None),
       invariants_bytecode :=
         loop_bytecode loc_id (\<lambda>l. typed_expression_of X (vm_variables m) sys (loc_invariant l))
           (tchecker_compile_expression X) (locations sys) (replicate (locations_count sys) None),
       typed_guards :=
         loop_typed edge_id (\<lambda>e. typed_expression_of X (vm_variables m) sys (edge_guard e))
           (edges sys) (replicate (edges_count sys) None),
       guards_bytecode :=
         loop_bytecode edge_id (\<lambda>e. typed_expression_of X (vm_variables m) sys (edge_guard e))
           (tchecker_compile_expression X) (edges sys) (replicate (edges_count sys) None),
       typed_statements :=
         loop_typed edge_id (\<lambda>e. typed_statement_of X (vm_variables m) sys (edge_statement e))
           (edges sys) (replicate (edges_count sys) None),
       statements_bytecode :=
         loop_bytecode edge_id (\<lambda>e. typed_statement_of X (vm_variables m) sys (edge_statement e))
           (tchecker_compile_statement X) (edges sys) (replicate (edges_count sys) None)\<rparr>"

text \<open>
  Identifiers of a system: \<open>ids_in_range\<close> when every identifier is below the count of
  its kind, \<open>well_formed_ids\<close> when the identifiers of the locations are exactly
  \<open>0, ..., L - 1\<close> and those of the edges exactly \<open>0, ..., E - 1\<close>.
\<close>

definition ids_in_range :: "('e, 's) system_t \<Rightarrow> bool" where
  "ids_in_range sys \<longleftrightarrow>
     list_all (\<lambda>l. loc_id l < locations_count sys) (locations sys) \<and>
     list_all (\<lambda>e. edge_id e < edges_count sys) (edges sys)"

definition empty_containers :: "('e, 's, 'te, 'ts, 'v) model_t \<Rightarrow> bool" where
  "empty_containers m \<longleftrightarrow>
     typed_invariants m = [] \<and> typed_guards m = [] \<and> typed_statements m = [] \<and>
     invariants_bytecode m = [] \<and> guards_bytecode m = [] \<and> statements_bytecode m = []"

definition well_formed_ids :: "('e, 's) system_t \<Rightarrow> bool" where
  "well_formed_ids sys \<longleftrightarrow>
     set (map loc_id (locations sys)) = {0..<locations_count sys} \<and>
     set (map edge_id (edges sys)) = {0..<edges_count sys}"

section \<open>A small instance\<close>

text \<open>
  An instance on which the definitions are evaluated. An expression is a name or the
  constant \<open>1\<close>, a statement is a name or \<open>nop\<close>; \<open>x\<close> is the one integer
  variable and \<open>c\<close> the one clock. A typed tree is the text with a flag that says
  \<open>bad\<close>; the checker reports an unknown name; the compiler throws on a bad tree and
  returns the one-word program otherwise. The three systems have one location and one
  edge: a well-typed one, one whose invariant names the unknown \<open>y\<close>, and one whose
  edge carries a weakly synchronized event and the guard \<open>x\<close>.
\<close>

definition example_externals ::
  "(string, string, string \<times> bool, string \<times> bool, unit, string list, string list) externals" where
  "example_externals =
     \<lparr>expression_to_string = (\<lambda>e. e),
      statement_to_string = (\<lambda>s. s),
      intvars = (\<lambda>v sys. [''x'']),
      clocks = (\<lambda>v sys. [''c'']),
      vm_variables_default = (),
      tchecker_typecheck_expression =
        (\<lambda>e iv cv. if e = ''1'' \<or> e \<in> set iv \<or> e \<in> set cv then ((e, False), [])
                    else ((e, True), [''undeclared identifier''])),
      tchecker_typecheck_statement =
        (\<lambda>s iv cv. if s = ''nop'' \<or> s \<in> set iv \<or> s \<in> set cv then ((s, False), [])
                    else ((s, True), [''undeclared identifier''])),
      tchecker_compile_expression = (\<lambda>t. if snd t then Inl ''invalid expression'' else Inr [0]),
      tchecker_compile_statement = (\<lambda>t. if snd t then Inl ''invalid statement'' else Inr [0]),
      expression_is_bad = snd,
      statement_is_bad = snd,
      guard_is_true = (\<lambda>e. e = ''1'')\<rparr>"

definition example_system :: "(string, string) system_t" where
  "example_system =
     \<lparr>locations = [\<lparr>loc_id = 0, loc_invariant = ''c''\<rparr>],
      edges = [\<lparr>edge_id = 0, edge_event_id = 0, edge_guard = ''x'', edge_statement = ''nop''\<rparr>],
      weakly_synchronized_events = []\<rparr>"

definition example_bad_system :: "(string, string) system_t" where
  "example_bad_system =
     \<lparr>locations = [\<lparr>loc_id = 0, loc_invariant = ''y''\<rparr>],
      edges = [\<lparr>edge_id = 0, edge_event_id = 0, edge_guard = ''x'', edge_statement = ''nop''\<rparr>],
      weakly_synchronized_events = []\<rparr>"

definition example_weak_system :: "(string, string) system_t" where
  "example_weak_system =
     \<lparr>locations = [\<lparr>loc_id = 0, loc_invariant = ''c''\<rparr>],
      edges = [\<lparr>edge_id = 0, edge_event_id = 0, edge_guard = ''x'', edge_statement = ''nop''\<rparr>],
      weakly_synchronized_events = [0]\<rparr>"

definition example_model :: "(string, string, string \<times> bool, string \<times> bool, unit) model_t" where
  "example_model =
     \<lparr>system = example_system, vm_variables = (),
      typed_invariants = [Some (''c'', False)],
      typed_guards = [Some (''x'', False)],
      typed_statements = [Some (''nop'', False)],
      invariants_bytecode = [Some [0]],
      guards_bytecode = [Some [0]],
      statements_bytecode = [Some [0]]\<rparr>"

text \<open>
  A printer with a concrete syntax and a statement: \<open>x=1; nop\<close>, its five nodes at the
  addresses 0 to 4.
\<close>

definition example_printer :: printer where
  "example_printer =
     \<lparr>output_nop = ''nop'',
      output_assign = (\<lambda>l r. l @ ''='' @ r),
      output_sequence = (\<lambda>f s. f @ ''; '' @ s),
      output_lvalue = (\<lambda>l. case l of Var_lvalue a x \<Rightarrow> x | Array_lvalue a v x off \<Rightarrow> x @ ''[]''),
      output_expression =
        (\<lambda>e. case e of Var_expression a x \<Rightarrow> x
                | Int_expression a k \<Rightarrow> (if k = 1 then ''1'' else ''k'')
                | Array_expression a v x off \<Rightarrow> x @ ''[]''
                | Unary_expression a op e1 \<Rightarrow> ''op''
                | Binary_expression a op e1 e2 \<Rightarrow> ''op'')\<rparr>"

definition example_statement :: "nat statement" where
  "example_statement =
     Sequence_statement 0 (Assign_statement 1 (Var_lvalue 2 ''x'') (Int_expression 3 1)) (Nop_statement 4)"

section \<open>Properties of the compile pass\<close>

lemma add_errors_Nil: "add_errors [] log = log"
  by (simp add: add_errors_def)

lemma add_errors_add_errors: "add_errors bs (add_errors as log) = add_errors (as @ bs) log"
  by (simp add: add_errors_def)

lemma log_error_add_errors: "log_error c msg log = add_errors [(c, msg)] log"
  by (simp add: log_error_def add_errors_def)

lemma foldl_log_error: "foldl (\<lambda>l msg. log_error c msg l) log msgs = add_errors (map (Pair c) msgs) log"
  by (induction msgs arbitrary: log) (simp_all add: add_errors_Nil log_error_add_errors add_errors_add_errors)

lemma compile_loop_closed:
  assumes tc: "\<And>x log c. tc x log c = (tt x, add_errors (map (Pair c) (tm x)) log)"
  shows "\<forall>x\<in>set xs. ident x < n \<Longrightarrow> length typed = n \<Longrightarrow> length bc = n \<Longrightarrow>
     compile_loop ident ctx tc cmp xs typed bc log =
       (Inr (loop_typed ident tt xs typed, loop_bytecode ident tt cmp xs bc),
        add_errors (loop_errors ctx tt tm cmp xs) log)"
proof (induction xs arbitrary: typed bc log)
  case Nil
  then show ?case by (simp add: loop_typed_def loop_bytecode_def loop_errors_def add_errors_Nil)
next
  case (Cons x xs)
  show ?case
  proof (cases "cmp (tt x)")
    case (Inl what)
    with Cons show ?thesis
      by (simp add: tc loop_typed_def loop_bytecode_def loop_errors_def attribute_errors_def
            log_error_add_errors add_errors_add_errors)
  next
    case (Inr b)
    with Cons show ?thesis
      by (simp add: tc loop_typed_def loop_bytecode_def loop_errors_def attribute_errors_def
            log_error_add_errors add_errors_add_errors)
  qed
qed

lemma typecheck_expression_closed:
  "typecheck_expression X vmv e sys log c =
     (typed_expression_of X vmv sys e, add_errors (map (Pair c) (expression_messages X vmv sys e)) log)"
  by (simp add: typecheck_expression_def typed_expression_of_def expression_messages_def
        foldl_log_error split: prod.splits)

lemma typecheck_statement_closed:
  "typecheck_statement X vmv s sys log c =
     (typed_statement_of X vmv sys s, add_errors (map (Pair c) (statement_messages X vmv sys s)) log)"
  by (simp add: typecheck_statement_def typed_statement_of_def statement_messages_def
        foldl_log_error split: prod.splits)

lemma compile_invariants_closed:
  assumes "list_all (\<lambda>l. loc_id l < locations_count sys) (locations sys)"
    and "typed_invariants m = []" and "invariants_bytecode m = []"
  shows "compile_invariants X sys m log =
     (Inr (m\<lparr>typed_invariants :=
               loop_typed loc_id (\<lambda>l. typed_expression_of X (vm_variables m) sys (loc_invariant l))
                 (locations sys) (replicate (locations_count sys) None),
             invariants_bytecode :=
               loop_bytecode loc_id (\<lambda>l. typed_expression_of X (vm_variables m) sys (loc_invariant l))
                 (tchecker_compile_expression X) (locations sys) (replicate (locations_count sys) None)\<rparr>),
      add_errors (invariants_errors X (vm_variables m) sys) log)"
proof -
  have r: "\<forall>x\<in>set (locations sys). loc_id x < locations_count sys"
    using assms(1) by (simp add: list_all_iff)
  show ?thesis
    unfolding compile_invariants_def invariants_errors_def
    using assms(2,3)
    by (simp add: compile_loop_closed [where n = "locations_count sys"
          and tt = "\<lambda>l. typed_expression_of X (vm_variables m) sys (loc_invariant l)"
          and tm = "\<lambda>l. expression_messages X (vm_variables m) sys (loc_invariant l)",
          OF typecheck_expression_closed r])
qed

lemma compile_guards_closed:
  assumes "list_all (\<lambda>e. edge_id e < edges_count sys) (edges sys)"
    and "typed_guards m = []" and "guards_bytecode m = []"
  shows "compile_guards X sys m log =
     (Inr (m\<lparr>typed_guards :=
               loop_typed edge_id (\<lambda>e. typed_expression_of X (vm_variables m) sys (edge_guard e))
                 (edges sys) (replicate (edges_count sys) None),
             guards_bytecode :=
               loop_bytecode edge_id (\<lambda>e. typed_expression_of X (vm_variables m) sys (edge_guard e))
                 (tchecker_compile_expression X) (edges sys) (replicate (edges_count sys) None)\<rparr>),
      add_errors (guards_errors X (vm_variables m) sys) log)"
proof -
  have r: "\<forall>x\<in>set (edges sys). edge_id x < edges_count sys"
    using assms(1) by (simp add: list_all_iff)
  show ?thesis
    unfolding compile_guards_def guards_errors_def
    using assms(2,3)
    by (simp add: compile_loop_closed [where n = "edges_count sys"
          and tt = "\<lambda>e. typed_expression_of X (vm_variables m) sys (edge_guard e)"
          and tm = "\<lambda>e. expression_messages X (vm_variables m) sys (edge_guard e)",
          OF typecheck_expression_closed r])
qed

lemma compile_statements_closed:
  assumes "list_all (\<lambda>e. edge_id e < edges_count sys) (edges sys)"
    and "typed_statements m = []" and "statements_bytecode m = []"
  shows "compile_statements X sys m log =
     (Inr (m\<lparr>typed_statements :=
               loop_typed edge_id (\<lambda>e. typed_statement_of X (vm_variables m) sys (edge_statement e))
                 (edges sys) (replicate (edges_count sys) None),
             statements_bytecode :=
               loop_bytecode edge_id (\<lambda>e. typed_statement_of X (vm_variables m) sys (edge_statement e))
                 (tchecker_compile_statement X) (edges sys) (replicate (edges_count sys) None)\<rparr>),
      add_errors (statements_errors X (vm_variables m) sys) log)"
proof -
  have r: "\<forall>x\<in>set (edges sys). edge_id x < edges_count sys"
    using assms(1) by (simp add: list_all_iff)
  show ?thesis
    unfolding compile_statements_def statements_errors_def
    using assms(2,3)
    by (simp add: compile_loop_closed [where n = "edges_count sys"
          and tt = "\<lambda>e. typed_statement_of X (vm_variables m) sys (edge_statement e)"
          and tm = "\<lambda>e. statement_messages X (vm_variables m) sys (edge_statement e)",
          OF typecheck_statement_closed r])
qed

lemma compile_closed:
  assumes "ids_in_range sys" and "empty_containers m"
  shows "compile X sys m log =
     (Inr (compiled_model X sys m), add_errors (system_errors X (vm_variables m) sys) log)"
  using assms
  by (simp add: compile_def ids_in_range_def empty_containers_def compile_invariants_closed
        compile_guards_closed compile_statements_closed compiled_model_def system_errors_def
        add_errors_add_errors)

lemma compile_loop_Inr_in_range:
  "compile_loop ident ctx tc cmp xs typed bc log = (Inr r, log') \<Longrightarrow> \<forall>x\<in>set xs. ident x < length typed"
proof (induction xs arbitrary: typed bc log)
  case Nil
  then show ?case by simp
next
  case (Cons x xs)
  obtain t log1 where tc: "tc x log (ctx x) = (t, log1)" by (cases "tc x log (ctx x)")
  from Cons.prems tc have lt: "ident x < length typed"
    by (auto split: if_splits)
  have "\<forall>y\<in>set xs. ident y < length (typed[ident x := Some t])"
  proof (cases "cmp t")
    case (Inl what)
    with Cons.prems tc lt show ?thesis
      by (intro Cons.IH [of _ bc "log_error (ctx x) what log1"]) simp
  next
    case (Inr b)
    with Cons.prems tc lt show ?thesis
      by (intro Cons.IH [of _ "bc[ident x := Some b]" log1]) (simp split: if_splits)
  qed
  with lt show ?case by simp
qed

lemma loop_typed_length: "length (loop_typed ident tt xs typed) = length typed"
  unfolding loop_typed_def by (induction xs arbitrary: typed) simp_all

lemma loop_bytecode_length: "length (loop_bytecode ident tt cmp xs bc) = length bc"
  unfolding loop_bytecode_def by (induction xs arbitrary: bc) (simp_all split: sum.splits)

lemma loop_typed_other:
  "i \<notin> ident ` set xs \<Longrightarrow> loop_typed ident tt xs typed ! i = typed ! i"
  unfolding loop_typed_def by (induction xs arbitrary: typed) auto

lemma loop_bytecode_other:
  "i \<notin> ident ` set xs \<Longrightarrow> loop_bytecode ident tt cmp xs bc ! i = bc ! i"
  unfolding loop_bytecode_def by (induction xs arbitrary: bc) (auto split: sum.splits)

lemma loop_typed_Cons:
  "loop_typed ident tt (x # xs) typed = loop_typed ident tt xs (typed[ident x := Some (tt x)])"
  by (simp add: loop_typed_def)

lemma loop_bytecode_Cons:
  "loop_bytecode ident tt cmp (x # xs) bc =
     loop_bytecode ident tt cmp xs (case cmp (tt x) of Inr b \<Rightarrow> bc[ident x := Some b] | Inl what \<Rightarrow> bc)"
  by (simp add: loop_bytecode_def)

lemma loop_typed_nth:
  "distinct (map ident xs) \<Longrightarrow> x \<in> set xs \<Longrightarrow> ident x < length typed \<Longrightarrow>
     loop_typed ident tt xs typed ! ident x = Some (tt x)"
proof (induction xs arbitrary: typed)
  case Nil
  then show ?case by simp
next
  case (Cons y ys)
  show ?case
  proof (cases "x \<in> set ys")
    case True
    with Cons show ?thesis by (simp add: loop_typed_Cons)
  next
    case False
    with Cons.prems have "x = y" and "ident y \<notin> ident ` set ys" by auto
    with Cons.prems show ?thesis by (simp add: loop_typed_Cons loop_typed_other)
  qed
qed

lemma loop_bytecode_nth:
  "distinct (map ident xs) \<Longrightarrow> x \<in> set xs \<Longrightarrow> ident x < length bc \<Longrightarrow>
     loop_bytecode ident tt cmp xs bc ! ident x =
       (case cmp (tt x) of Inr b \<Rightarrow> Some b | Inl what \<Rightarrow> bc ! ident x)"
proof (induction xs arbitrary: bc)
  case Nil
  then show ?case by simp
next
  case (Cons y ys)
  show ?case
  proof (cases "x \<in> set ys")
    case True
    with Cons.prems have ne: "ident y \<noteq> ident x" by auto
    from True Cons.prems
    have "loop_bytecode ident tt cmp (y # ys) bc ! ident x =
            (case cmp (tt x) of Inr b \<Rightarrow> Some b
             | Inl what \<Rightarrow> (case cmp (tt y) of Inr b \<Rightarrow> bc[ident y := Some b] | Inl what \<Rightarrow> bc) ! ident x)"
      unfolding loop_bytecode_Cons by (intro Cons.IH) (simp_all split: sum.splits)
    with ne show ?thesis by (simp split: sum.splits)
  next
    case False
    with Cons.prems have "x = y" and "ident y \<notin> ident ` set ys" by auto
    with Cons.prems show ?thesis
      by (simp add: loop_bytecode_Cons loop_bytecode_other split: sum.splits)
  qed
qed



lemma well_formed_ids_in_range: "well_formed_ids sys \<Longrightarrow> ids_in_range sys"
  unfolding well_formed_ids_def ids_in_range_def list_all_iff by auto

lemma well_formed_ids_distinct:
  assumes "well_formed_ids sys"
  shows "distinct (map loc_id (locations sys))" and "distinct (map edge_id (edges sys))"
proof -
  have "card (set (map loc_id (locations sys))) = length (map loc_id (locations sys))"
    using assms by (simp add: well_formed_ids_def locations_count_def)
  then show "distinct (map loc_id (locations sys))" by (rule card_distinct)
  have "card (set (map edge_id (edges sys))) = length (map edge_id (edges sys))"
    using assms by (simp add: well_formed_ids_def edges_count_def)
  then show "distinct (map edge_id (edges sys))" by (rule card_distinct)
qed

lemma well_formed_ids_location:
  "well_formed_ids sys \<Longrightarrow> lid < locations_count sys \<Longrightarrow> \<exists>l\<in>set (locations sys). loc_id l = lid"
  unfolding well_formed_ids_def by (metis atLeastLessThan_iff imageE list.set_map zero_le)

lemma well_formed_ids_edge:
  "well_formed_ids sys \<Longrightarrow> eid < edges_count sys \<Longrightarrow> \<exists>e\<in>set (edges sys). edge_id e = eid"
  unfolding well_formed_ids_def by (metis atLeastLessThan_iff imageE list.set_map zero_le)

lemma empty_containers_fresh_model: "empty_containers (fresh_model X sys)"
  by (simp add: empty_containers_def fresh_model_def)

lemma compile_Inr_in_range:
  assumes "compile X sys m log = (Inr m', log')"
  shows "ids_in_range sys \<and> empty_containers m"
proof -
  obtain m1 log1 where c1: "compile_invariants X sys m log = (Inr m1, log1)"
    using assms by (auto simp: compile_def split: prod.splits sum.splits)
  then obtain m2 log2 where c2: "compile_guards X sys m1 log1 = (Inr m2, log2)"
    using assms by (auto simp: compile_def split: prod.splits sum.splits)
  then have c3: "compile_statements X sys m2 log2 = (Inr m', log')"
    using assms c1 by (auto simp: compile_def split: prod.splits sum.splits)
  from c1 have e1: "typed_invariants m = [] \<and> invariants_bytecode m = []"
    by (auto simp: compile_invariants_def split: if_splits)
  from c1 obtain r where
    "compile_loop loc_id (invariant_context X)
       (\<lambda>loc. typecheck_expression X (vm_variables m) (loc_invariant loc) sys)
       (tchecker_compile_expression X) (locations sys)
       (replicate (locations_count sys) None) (replicate (locations_count sys) None) log = (Inr r, log1)"
    by (auto simp: compile_invariants_def split: if_splits prod.splits sum.splits)
  from compile_loop_Inr_in_range [OF this]
  have r1: "list_all (\<lambda>l. loc_id l < locations_count sys) (locations sys)"
    by (simp add: list_all_iff)
  from c1 e1 have m1: "typed_guards m1 = typed_guards m \<and> guards_bytecode m1 = guards_bytecode m
      \<and> typed_statements m1 = typed_statements m \<and> statements_bytecode m1 = statements_bytecode m"
    by (auto simp: compile_invariants_def split: if_splits prod.splits sum.splits)
  from c2 have e2: "typed_guards m1 = [] \<and> guards_bytecode m1 = []"
    by (auto simp: compile_guards_def split: if_splits)
  from c2 obtain r' where
    "compile_loop edge_id (guard_context X)
       (\<lambda>edge. typecheck_expression X (vm_variables m1) (edge_guard edge) sys)
       (tchecker_compile_expression X) (edges sys)
       (replicate (edges_count sys) None) (replicate (edges_count sys) None) log1 = (Inr r', log2)"
    by (auto simp: compile_guards_def split: if_splits prod.splits sum.splits)
  from compile_loop_Inr_in_range [OF this]
  have r2: "list_all (\<lambda>e. edge_id e < edges_count sys) (edges sys)"
    by (simp add: list_all_iff)
  from c2 e2 have m2: "typed_statements m2 = typed_statements m1 \<and> statements_bytecode m2 = statements_bytecode m1"
    by (auto simp: compile_guards_def split: if_splits prod.splits sum.splits)
  from c3 have e3: "typed_statements m2 = [] \<and> statements_bytecode m2 = []"
    by (auto simp: compile_statements_def split: if_splits)
  from r1 r2 e1 e2 e3 m1 m2 show ?thesis
    by (simp add: ids_in_range_def empty_containers_def)
qed

lemma model_t_Inr:
  assumes "model_t X sys log = (Inr m, log')"
  shows "ids_in_range sys" and "\<not> has_guarded_weakly_synchronized_event X sys"
    and "m = compiled_model X sys (fresh_model X sys)" and "log' = log"
    and "log_errors log = []" and "system_errors X (vm_variables_default X) sys = []"
proof -
  from assms show ng: "\<not> has_guarded_weakly_synchronized_event X sys"
    by (auto simp: model_t_def split: if_splits)
  have sysf: "system (fresh_model X sys) = sys" by (simp add: fresh_model_def)
  from assms ng obtain m1 log1 where c: "compile X sys (fresh_model X sys) log = (Inr m1, log1)"
    by (auto simp: model_t_def sysf split: if_splits prod.splits sum.splits)
  from compile_Inr_in_range [OF c] show r: "ids_in_range sys" by simp
  have vm: "vm_variables (fresh_model X sys) = vm_variables_default X" by (simp add: fresh_model_def)
  from compile_closed [OF r empty_containers_fresh_model [of X sys], where X = X and log = log]
  have cl: "compile X sys (fresh_model X sys) log =
     (Inr (compiled_model X sys (fresh_model X sys)), add_errors (system_errors X (vm_variables_default X) sys) log)"
    by (simp add: vm)
  from assms ng cl have
    z: "error_count (add_errors (system_errors X (vm_variables_default X) sys) log) = 0"
    and m: "m = compiled_model X sys (fresh_model X sys)"
    and l: "log' = add_errors (system_errors X (vm_variables_default X) sys) log"
    by (auto simp: model_t_def sysf split: if_splits)
  from z show e1: "log_errors log = []" and e2: "system_errors X (vm_variables_default X) sys = []"
    by (simp_all add: error_count_def add_errors_def)
  from m show "m = compiled_model X sys (fresh_model X sys)" .
  from l e2 show "log' = log" by (simp add: add_errors_Nil)
qed

lemmas example_defs =
  example_externals_def example_system_def example_bad_system_def example_weak_system_def
  example_model_def

lemmas model_defs =
  model_t_def has_guarded_weakly_synchronized_event_def compile_def compile_invariants_def
  compile_guards_def compile_statements_def fresh_model_def typecheck_expression_def
  typecheck_statement_def invariant_context_def guard_context_def statement_context_def
  locations_count_def edges_count_def log_error_def silent_log_def error_count_def

lemma example_model_t: "model_t example_externals example_system silent_log = (Inr example_model, silent_log)"
  by (simp add: example_defs model_defs)

lemma example_well_formed: "well_formed_ids example_system"
  by (simp add: well_formed_ids_def example_defs locations_count_def edges_count_def)

lemma example_bad_in_range: "ids_in_range example_bad_system"
  by (simp add: ids_in_range_def example_defs locations_count_def edges_count_def)

lemma compile_fresh_closed:
  assumes "ids_in_range sys"
  shows "compile X sys (fresh_model X sys) log =
     (Inr (compiled_model X sys (fresh_model X sys)),
      add_errors (system_errors X (vm_variables_default X) sys) log)"
  using compile_closed [OF assms empty_containers_fresh_model [of X sys], where X = X and log = log]
  by (simp add: fresh_model_def)

lemma system_fresh_model: "system (fresh_model X sys) = sys"
  by (simp add: fresh_model_def)

section \<open>Construction\<close>

text \<open>
  C1. For a system whose identifiers are in range, the compile pass always runs to its
  end: it returns a model, and the log after it is the log before it followed by the
  errors of every invariant, every guard and every statement, in that order. The
  constructor throws \<open>System compilation failure\<close> exactly when the static analysis
  passed and the error count of the log after the pass is positive; it returns a model
  exactly when the static analysis passed, the log held no error before and no attribute
  reported one. The warnings held by the log have no part in the outcome.
\<close>

theorem construction_fails_iff_errors_logged:
  assumes "ids_in_range sys"
  shows "(\<exists>m. fst (compile X sys (fresh_model X sys) log) = Inr m)
     \<and> snd (compile X sys (fresh_model X sys) log)
         = add_errors (system_errors X (vm_variables_default X) sys) log
     \<and> (fst (model_t X sys log) = Inl (Runtime_error ''System compilation failure'')
          \<longleftrightarrow> \<not> has_guarded_weakly_synchronized_event X sys
              \<and> 0 < error_count (snd (compile X sys (fresh_model X sys) log)))
     \<and> ((\<exists>m. fst (model_t X sys log) = Inr m)
          \<longleftrightarrow> \<not> has_guarded_weakly_synchronized_event X sys
              \<and> log_errors log = [] \<and> system_errors X (vm_variables_default X) sys = [])
     \<and> fst (model_t X sys (log\<lparr>log_warnings := w\<rparr>)) = fst (model_t X sys log)"
proof -
  note c = compile_fresh_closed [OF assms]
  have 1: "\<exists>m. fst (compile X sys (fresh_model X sys) log) = Inr m"
    by (simp add: c)
  have 2: "snd (compile X sys (fresh_model X sys) log)
         = add_errors (system_errors X (vm_variables_default X) sys) log"
    by (simp add: c)
  have 3: "fst (model_t X sys log) = Inl (Runtime_error ''System compilation failure'')
          \<longleftrightarrow> \<not> has_guarded_weakly_synchronized_event X sys
              \<and> 0 < error_count (snd (compile X sys (fresh_model X sys) log))"
    by (simp add: model_t_def system_fresh_model c)
  have 4: "(\<exists>m. fst (model_t X sys log) = Inr m)
          \<longleftrightarrow> \<not> has_guarded_weakly_synchronized_event X sys
              \<and> log_errors log = [] \<and> system_errors X (vm_variables_default X) sys = []"
    by (simp add: model_t_def system_fresh_model c error_count_def add_errors_def)
  have 5: "fst (model_t X sys (log\<lparr>log_warnings := w\<rparr>)) = fst (model_t X sys log)"
    by (simp add: model_t_def system_fresh_model c error_count_def add_errors_def)
  from 1 2 3 4 5 show ?thesis by blast
qed

theorem construction_fails_iff_errors_logged_witness:
  "ids_in_range example_bad_system
   \<and> fst (model_t example_externals example_bad_system silent_log)
       = Inl (Runtime_error ''System compilation failure'')
   \<and> log_errors (snd (compile example_externals example_bad_system
        (fresh_model example_externals example_bad_system) silent_log))
       = [(''Attribute invariant: y'', ''undeclared identifier''),
          (''Attribute invariant: y'', ''invalid expression'')]
   \<and> fst (model_t example_externals example_system (log_warning ''Attribute do: x = y'' ''possible value loss'' silent_log))
       = Inr example_model"
proof -
  have h: "ids_in_range example_bad_system"
    by (simp add: ids_in_range_def example_defs locations_count_def edges_count_def)
  have h': "ids_in_range example_system"
    by (simp add: ids_in_range_def example_defs locations_count_def edges_count_def)
  have w: "log_warning ''Attribute do: x = y'' ''possible value loss'' silent_log
     = silent_log\<lparr>log_warnings := [(''Attribute do: x = y'', ''possible value loss'')]\<rparr>"
    by (simp add: log_warning_def silent_log_def)
  have m: "fst (model_t example_externals example_system silent_log) = Inr example_model"
    by (simp add: example_defs model_defs)
  have a: "\<not> has_guarded_weakly_synchronized_event example_externals example_bad_system"
    by (simp add: example_defs has_guarded_weakly_synchronized_event_def)
  have b: "log_errors (snd (compile example_externals example_bad_system
        (fresh_model example_externals example_bad_system) silent_log))
       = [(''Attribute invariant: y'', ''undeclared identifier''),
          (''Attribute invariant: y'', ''invalid expression'')]"
    by (simp add: example_defs model_defs)
  then have c: "0 < error_count (snd (compile example_externals example_bad_system
        (fresh_model example_externals example_bad_system) silent_log))"
    by (simp add: error_count_def)
  from construction_fails_iff_errors_logged [OF h, of example_externals silent_log] a c
  have d: "fst (model_t example_externals example_bad_system silent_log)
       = Inl (Runtime_error ''System compilation failure'')"
    by blast
  from construction_fails_iff_errors_logged [OF h', of example_externals silent_log
        "[(''Attribute do: x = y'', ''possible value loss'')]"]
  have "fst (model_t example_externals example_system
          (silent_log\<lparr>log_warnings := [(''Attribute do: x = y'', ''possible value loss'')]\<rparr>))
        = fst (model_t example_externals example_system silent_log)"
    by blast
  with m w have e: "fst (model_t example_externals example_system
       (log_warning ''Attribute do: x = y'' ''possible value loss'' silent_log)) = Inr example_model"
    by simp
  from h b d e show ?thesis by blast
qed

text \<open>
  C2. When some edge of the system carries a weakly synchronized event and a guard that is
  not the constant true, the constructor throws \<open>Weakly synchronized event shall not be
  guarded\<close>. No model is returned and the log is as it was: nothing was type-checked or
  compiled, and the outcome is the same whatever the type checker and the compiler are.
\<close>

theorem weakly_synchronized_guard_rejected:
  assumes "edge \<in> set (edges sys)"
    and "edge_event_id edge \<in> set (weakly_synchronized_events sys)"
    and "\<not> guard_is_true X (edge_guard edge)"
  shows "model_t X sys log
           = (Inl (Runtime_error ''Weakly synchronized event shall not be guarded''), log)
     \<and> (\<forall>tce tcs ce cs.
          model_t (X\<lparr>tchecker_typecheck_expression := tce, tchecker_typecheck_statement := tcs,
                     tchecker_compile_expression := ce, tchecker_compile_statement := cs\<rparr>) sys log
           = (Inl (Runtime_error ''Weakly synchronized event shall not be guarded''), log))"
  using assms
  by (auto simp: model_t_def has_guarded_weakly_synchronized_event_def list_ex_iff)

theorem weakly_synchronized_guard_rejected_witness:
  "model_t example_externals example_weak_system silent_log
     = (Inl (Runtime_error ''Weakly synchronized event shall not be guarded''), silent_log)"
proof -
  let ?e = "\<lparr>edge_id = 0, edge_event_id = 0, edge_guard = ''x'', edge_statement = ''nop''\<rparr>"
  have 1: "?e \<in> set (edges example_weak_system)" by (simp add: example_defs)
  have 2: "edge_event_id ?e \<in> set (weakly_synchronized_events example_weak_system)"
    by (simp add: example_defs)
  have 3: "\<not> guard_is_true example_externals (edge_guard ?e)" by (simp add: example_defs)
  from weakly_synchronized_guard_rejected [OF 1 2 3] show ?thesis by blast
qed

lemma compiled_model_fields:
  "system (compiled_model X sys m) = system m"
  "vm_variables (compiled_model X sys m) = vm_variables m"
  "typed_invariants (compiled_model X sys m) =
     loop_typed loc_id (\<lambda>l. typed_expression_of X (vm_variables m) sys (loc_invariant l))
       (locations sys) (replicate (locations_count sys) None)"
  "invariants_bytecode (compiled_model X sys m) =
     loop_bytecode loc_id (\<lambda>l. typed_expression_of X (vm_variables m) sys (loc_invariant l))
       (tchecker_compile_expression X) (locations sys) (replicate (locations_count sys) None)"
  "typed_guards (compiled_model X sys m) =
     loop_typed edge_id (\<lambda>e. typed_expression_of X (vm_variables m) sys (edge_guard e))
       (edges sys) (replicate (edges_count sys) None)"
  "guards_bytecode (compiled_model X sys m) =
     loop_bytecode edge_id (\<lambda>e. typed_expression_of X (vm_variables m) sys (edge_guard e))
       (tchecker_compile_expression X) (edges sys) (replicate (edges_count sys) None)"
  "typed_statements (compiled_model X sys m) =
     loop_typed edge_id (\<lambda>e. typed_statement_of X (vm_variables m) sys (edge_statement e))
       (edges sys) (replicate (edges_count sys) None)"
  "statements_bytecode (compiled_model X sys m) =
     loop_bytecode edge_id (\<lambda>e. typed_statement_of X (vm_variables m) sys (edge_statement e))
       (tchecker_compile_statement X) (edges sys) (replicate (edges_count sys) None)"
  by (simp_all add: compiled_model_def)

lemma compiled_model_lengths:
  "length (typed_invariants (compiled_model X sys m)) = locations_count sys"
  "length (invariants_bytecode (compiled_model X sys m)) = locations_count sys"
  "length (typed_guards (compiled_model X sys m)) = edges_count sys"
  "length (guards_bytecode (compiled_model X sys m)) = edges_count sys"
  "length (typed_statements (compiled_model X sys m)) = edges_count sys"
  "length (statements_bytecode (compiled_model X sys m)) = edges_count sys"
  by (simp_all add: compiled_model_fields loop_typed_length loop_bytecode_length)

text \<open>The slots of one location and of one edge after the pass.\<close>

lemma compiled_model_location:
  assumes "well_formed_ids sys" and "l \<in> set (locations sys)"
  shows "typed_invariants (compiled_model X sys m) ! loc_id l
           = Some (typed_expression_of X (vm_variables m) sys (loc_invariant l))"
    and "invariants_bytecode (compiled_model X sys m) ! loc_id l
           = (case tchecker_compile_expression X (typed_expression_of X (vm_variables m) sys (loc_invariant l)) of
                Inr b \<Rightarrow> Some b | Inl what \<Rightarrow> None)"
proof -
  from well_formed_ids_in_range [OF assms(1)] assms(2)
  have lt: "loc_id l < locations_count sys"
    by (simp add: ids_in_range_def list_all_iff)
  note d = well_formed_ids_distinct(1) [OF assms(1)]
  show "typed_invariants (compiled_model X sys m) ! loc_id l
           = Some (typed_expression_of X (vm_variables m) sys (loc_invariant l))"
    using lt by (simp add: compiled_model_fields loop_typed_nth [OF d assms(2)])
  show "invariants_bytecode (compiled_model X sys m) ! loc_id l
           = (case tchecker_compile_expression X (typed_expression_of X (vm_variables m) sys (loc_invariant l)) of
                Inr b \<Rightarrow> Some b | Inl what \<Rightarrow> None)"
    using lt by (simp add: compiled_model_fields loop_bytecode_nth [OF d assms(2)] cong: sum.case_cong)
qed

lemma compiled_model_edge:
  assumes "well_formed_ids sys" and "e \<in> set (edges sys)"
  shows "typed_guards (compiled_model X sys m) ! edge_id e
           = Some (typed_expression_of X (vm_variables m) sys (edge_guard e))"
    and "guards_bytecode (compiled_model X sys m) ! edge_id e
           = (case tchecker_compile_expression X (typed_expression_of X (vm_variables m) sys (edge_guard e)) of
                Inr b \<Rightarrow> Some b | Inl what \<Rightarrow> None)"
    and "typed_statements (compiled_model X sys m) ! edge_id e
           = Some (typed_statement_of X (vm_variables m) sys (edge_statement e))"
    and "statements_bytecode (compiled_model X sys m) ! edge_id e
           = (case tchecker_compile_statement X (typed_statement_of X (vm_variables m) sys (edge_statement e)) of
                Inr b \<Rightarrow> Some b | Inl what \<Rightarrow> None)"
proof -
  from well_formed_ids_in_range [OF assms(1)] assms(2)
  have lt: "edge_id e < edges_count sys"
    by (simp add: ids_in_range_def list_all_iff)
  note d = well_formed_ids_distinct(2) [OF assms(1)]
  show "typed_guards (compiled_model X sys m) ! edge_id e
           = Some (typed_expression_of X (vm_variables m) sys (edge_guard e))"
    using lt by (simp add: compiled_model_fields loop_typed_nth [OF d assms(2)])
  show "guards_bytecode (compiled_model X sys m) ! edge_id e
           = (case tchecker_compile_expression X (typed_expression_of X (vm_variables m) sys (edge_guard e)) of
                Inr b \<Rightarrow> Some b | Inl what \<Rightarrow> None)"
    using lt by (simp add: compiled_model_fields loop_bytecode_nth [OF d assms(2)] cong: sum.case_cong)
  show "typed_statements (compiled_model X sys m) ! edge_id e
           = Some (typed_statement_of X (vm_variables m) sys (edge_statement e))"
    using lt by (simp add: compiled_model_fields loop_typed_nth [OF d assms(2)])
  show "statements_bytecode (compiled_model X sys m) ! edge_id e
           = (case tchecker_compile_statement X (typed_statement_of X (vm_variables m) sys (edge_statement e)) of
                Inr b \<Rightarrow> Some b | Inl what \<Rightarrow> None)"
    using lt by (simp add: compiled_model_fields loop_bytecode_nth [OF d assms(2)] cong: sum.case_cong)
qed


lemma model_t_Inr_vm_variables:
  assumes "model_t X sys log = (Inr m, log')"
  shows "vm_variables m = vm_variables_default X" and "system m = sys"
  using model_t_Inr(3) [OF assms]
  by (simp_all add: compiled_model_fields fresh_model_def)


lemma model_t_Inr_lengths:
  assumes "model_t X sys log = (Inr m, log')"
  shows "length (typed_invariants m) = locations_count sys"
    "length (invariants_bytecode m) = locations_count sys"
    "length (typed_guards m) = edges_count sys"
    "length (guards_bytecode m) = edges_count sys"
    "length (typed_statements m) = edges_count sys"
    "length (statements_bytecode m) = edges_count sys"
  by (simp_all add: model_t_Inr(3) [OF assms] compiled_model_lengths)

lemma model_t_Inr_slots:
  assumes "model_t X sys log = (Inr m, log')" and "well_formed_ids sys"
  shows "lid < locations_count sys \<Longrightarrow> \<exists>t. typed_invariants m ! lid = Some t"
    and "eid < edges_count sys \<Longrightarrow> \<exists>t. typed_guards m ! eid = Some t"
    and "eid < edges_count sys \<Longrightarrow> \<exists>t. typed_statements m ! eid = Some t"
proof -
  note m = model_t_Inr(3) [OF assms(1)]
  show "\<exists>t. typed_invariants m ! lid = Some t" if "lid < locations_count sys"
    using well_formed_ids_location [OF assms(2) that]
      compiled_model_location(1) [OF assms(2), of _ X "fresh_model X sys"]
    by (auto simp: m)
  show "\<exists>t. typed_guards m ! eid = Some t" if "eid < edges_count sys"
    using well_formed_ids_edge [OF assms(2) that]
      compiled_model_edge(1) [OF assms(2), of _ X "fresh_model X sys"]
    by (auto simp: m)
  show "\<exists>t. typed_statements m ! eid = Some t" if "eid < edges_count sys"
    using well_formed_ids_edge [OF assms(2) that]
      compiled_model_edge(3) [OF assms(2), of _ X "fresh_model X sys"]
    by (auto simp: m)
qed

text \<open>
  C6. After a successful construction, an accessor called with an index in range returns
  the element its vector stores at that index (for a typed accessor the tree the slot
  points to, for a bytecode accessor the pointer itself), and never fails. Called with an
  index out of range, the assertion of the accessor fails.
\<close>

theorem accessors_return_stored_elements:
  assumes "model_t X sys log = (Inr m, log')" and "well_formed_ids sys"
  shows "(\<forall>lid. lid < locations_count sys \<longrightarrow>
            (\<exists>t. typed_invariants m ! lid = Some t \<and> typed_invariant m lid = Inr t)
          \<and> invariant_bytecode m lid = Inr (invariants_bytecode m ! lid))
       \<and> (\<forall>eid. eid < edges_count sys \<longrightarrow>
            (\<exists>t. typed_guards m ! eid = Some t \<and> typed_guard m eid = Inr t)
          \<and> guard_bytecode m eid = Inr (guards_bytecode m ! eid)
          \<and> (\<exists>t. typed_statements m ! eid = Some t \<and> typed_statement m eid = Inr t)
          \<and> statement_bytecode m eid = Inr (statements_bytecode m ! eid))
       \<and> (\<forall>lid. \<not> lid < locations_count sys \<longrightarrow>
            typed_invariant m lid = Inl Assertion_failure
          \<and> invariant_bytecode m lid = Inl Assertion_failure)
       \<and> (\<forall>eid. \<not> eid < edges_count sys \<longrightarrow>
            typed_guard m eid = Inl Assertion_failure
          \<and> guard_bytecode m eid = Inl Assertion_failure
          \<and> typed_statement m eid = Inl Assertion_failure
          \<and> statement_bytecode m eid = Inl Assertion_failure)"
proof -
  note len = model_t_Inr_lengths [OF assms(1)]
  note slot = model_t_Inr_slots [OF assms]
  have 1: "(\<exists>t. typed_invariants m ! lid = Some t \<and> typed_invariant m lid = Inr t)
          \<and> invariant_bytecode m lid = Inr (invariants_bytecode m ! lid)"
    if "lid < locations_count sys" for lid
    using that slot(1) [OF that] by (auto simp: typed_invariant_def invariant_bytecode_def len)
  have 2: "(\<exists>t. typed_guards m ! eid = Some t \<and> typed_guard m eid = Inr t)
          \<and> guard_bytecode m eid = Inr (guards_bytecode m ! eid)
          \<and> (\<exists>t. typed_statements m ! eid = Some t \<and> typed_statement m eid = Inr t)
          \<and> statement_bytecode m eid = Inr (statements_bytecode m ! eid)"
    if "eid < edges_count sys" for eid
    using that slot(2) [OF that] slot(3) [OF that]
    by (auto simp: typed_guard_def guard_bytecode_def typed_statement_def statement_bytecode_def len)
  have 3: "typed_invariant m lid = Inl Assertion_failure
          \<and> invariant_bytecode m lid = Inl Assertion_failure"
    if "\<not> lid < locations_count sys" for lid
    using that by (simp add: typed_invariant_def invariant_bytecode_def len)
  have 4: "typed_guard m eid = Inl Assertion_failure
          \<and> guard_bytecode m eid = Inl Assertion_failure
          \<and> typed_statement m eid = Inl Assertion_failure
          \<and> statement_bytecode m eid = Inl Assertion_failure"
    if "\<not> eid < edges_count sys" for eid
    using that
    by (simp add: typed_guard_def guard_bytecode_def typed_statement_def statement_bytecode_def len)
  from 1 2 3 4 show ?thesis by blast
qed

theorem accessors_return_stored_elements_witness:
  "typed_invariant example_model 0 = Inr (''c'', False)
   \<and> invariant_bytecode example_model 0 = Inr (Some [0])
   \<and> typed_guard example_model 0 = Inr (''x'', False)
   \<and> statement_bytecode example_model 0 = Inr (Some [0])
   \<and> typed_invariant example_model 1 = Inl Assertion_failure
   \<and> guard_bytecode example_model 1 = Inl Assertion_failure"
proof -
  note t = accessors_return_stored_elements [OF example_model_t example_well_formed]
  have l: "(0::nat) < locations_count example_system" "\<not> (1::nat) < locations_count example_system"
    by (simp_all add: locations_count_def example_system_def)
  have e: "(0::nat) < edges_count example_system" "\<not> (1::nat) < edges_count example_system"
    by (simp_all add: edges_count_def example_system_def)
  have s: "typed_invariants example_model ! 0 = Some (''c'', False)"
    "invariants_bytecode example_model ! 0 = Some [0]"
    "typed_guards example_model ! 0 = Some (''x'', False)"
    "statements_bytecode example_model ! 0 = Some [0]"
    by (simp_all add: example_model_def)
  from t l(1) s(1,2) have 1: "typed_invariant example_model 0 = Inr (''c'', False)
      \<and> invariant_bytecode example_model 0 = Inr (Some [0])"
    by (metis option.inject)
  from t e(1) s(3,4) have 2: "typed_guard example_model 0 = Inr (''x'', False)
      \<and> statement_bytecode example_model 0 = Inr (Some [0])"
    by (metis option.inject)
  from t l(2) e(2) have 3: "typed_invariant example_model 1 = Inl Assertion_failure
      \<and> guard_bytecode example_model 1 = Inl Assertion_failure"
    by blast
  from 1 2 3 show ?thesis by blast
qed

lemma recompile_constructed:
  assumes "model_t X sys log = (Inr m, log')"
  shows "compile X (system m) (fresh_model X (system m)) silent_log = (Inr m, silent_log)"
    and "compile X (system m)
           ((free_memory this)\<lparr>system := system m, vm_variables := vm_variables m\<rparr>) silent_log
         = (Inr m, silent_log)"
proof -
  note r = model_t_Inr(1) [OF assms]
  note m = model_t_Inr(3) [OF assms]
  note ne = model_t_Inr(6) [OF assms]
  note vs = model_t_Inr_vm_variables [OF assms]
  show 1: "compile X (system m) (fresh_model X (system m)) silent_log = (Inr m, silent_log)"
    by (simp add: vs compile_fresh_closed [OF r] ne add_errors_Nil m [symmetric])
  have "(free_memory this)\<lparr>system := system m, vm_variables := vm_variables m\<rparr> = fresh_model X sys"
    by (simp add: free_memory_def fresh_model_def vs)
  with 1 show "compile X (system m)
           ((free_memory this)\<lparr>system := system m, vm_variables := vm_variables m\<rparr>) silent_log
         = (Inr m, silent_log)"
    by (simp add: vs)
qed

lemma error_count_silent_log: "error_count silent_log = 0"
  by (simp add: error_count_def silent_log_def)




section \<open>Copy and move\<close>

text \<open>
  C5. The copy constructor and the copy assignment, applied to a successfully constructed
  model, return a model whose bytecode vectors equal the source's, buffer by buffer and
  word by word, and whose typed trees equal the source's, so that they print alike under
  every printer. The copy is the result of a compile pass that starts from empty vectors:
  of the source, the copy constructor reads the system only, and the copy assignment the
  system and the \<open>VM_VARIABLES\<close> member; no slot of the source reaches the copy.
\<close>

theorem copy_is_fresh_compilation_with_equal_contents:
  assumes "model_t X sys log = (Inr m, log')"
  shows "(\<exists>c. model_t_copy X m = Inr c \<and> c = m
            \<and> invariants_bytecode c = invariants_bytecode m
            \<and> guards_bytecode c = guards_bytecode m
            \<and> statements_bytecode c = statements_bytecode m
            \<and> (\<forall>pe ps. map (map_option pe) (typed_invariants c) = map (map_option pe) (typed_invariants m)
                 \<and> map (map_option pe) (typed_guards c) = map (map_option pe) (typed_guards m)
                 \<and> map (map_option ps) (typed_statements c) = map (map_option ps) (typed_statements m)))
       \<and> (\<exists>a. assign_copy X False this m = Inr a \<and> a = m
            \<and> invariants_bytecode a = invariants_bytecode m
            \<and> guards_bytecode a = guards_bytecode m
            \<and> statements_bytecode a = statements_bytecode m
            \<and> (\<forall>pe ps. map (map_option pe) (typed_invariants a) = map (map_option pe) (typed_invariants m)
                 \<and> map (map_option pe) (typed_guards a) = map (map_option pe) (typed_guards m)
                 \<and> map (map_option ps) (typed_statements a) = map (map_option ps) (typed_statements m)))
       \<and> model_t_copy X m = fst (compile X (system m) (fresh_model X (system m)) silent_log)
       \<and> (\<forall>src. system src = system m \<longrightarrow> model_t_copy X src = model_t_copy X m)
       \<and> (\<forall>src. system src = system m \<and> vm_variables src = vm_variables m
              \<longrightarrow> assign_copy X False this src = assign_copy X False this m)"
proof -
  note r = recompile_constructed [OF assms]
  have c: "model_t_copy X m = Inr m"
    by (simp add: model_t_copy_def system_fresh_model r(1) error_count_silent_log)
  have a: "assign_copy X False this m = Inr m"
    by (simp add: assign_copy_def r(2) error_count_silent_log)
  have f: "model_t_copy X m = fst (compile X (system m) (fresh_model X (system m)) silent_log)"
    by (simp add: c r(1))
  have s1: "\<forall>src. system src = system m \<longrightarrow> model_t_copy X src = model_t_copy X m"
    by (simp add: model_t_copy_def system_fresh_model)
  have s2: "\<forall>src. system src = system m \<and> vm_variables src = vm_variables m
              \<longrightarrow> assign_copy X False this src = assign_copy X False this m"
    by (simp add: assign_copy_def)
  from c have C: "\<exists>c. model_t_copy X m = Inr c \<and> c = m
            \<and> invariants_bytecode c = invariants_bytecode m
            \<and> guards_bytecode c = guards_bytecode m
            \<and> statements_bytecode c = statements_bytecode m
            \<and> (\<forall>pe ps. map (map_option pe) (typed_invariants c) = map (map_option pe) (typed_invariants m)
                 \<and> map (map_option pe) (typed_guards c) = map (map_option pe) (typed_guards m)
                 \<and> map (map_option ps) (typed_statements c) = map (map_option ps) (typed_statements m))"
    by simp
  from a have A: "\<exists>a. assign_copy X False this m = Inr a \<and> a = m
            \<and> invariants_bytecode a = invariants_bytecode m
            \<and> guards_bytecode a = guards_bytecode m
            \<and> statements_bytecode a = statements_bytecode m
            \<and> (\<forall>pe ps. map (map_option pe) (typed_invariants a) = map (map_option pe) (typed_invariants m)
                 \<and> map (map_option pe) (typed_guards a) = map (map_option pe) (typed_guards m)
                 \<and> map (map_option ps) (typed_statements a) = map (map_option ps) (typed_statements m))"
    by simp
  show ?thesis
    using C A f s1 s2 by (intro conjI) assumption+
qed

theorem copy_is_fresh_compilation_with_equal_contents_witness:
  "model_t_copy example_externals example_model = Inr example_model
   \<and> assign_copy example_externals False (fresh_model example_externals example_bad_system) example_model
       = Inr example_model"
proof -
  note t = copy_is_fresh_compilation_with_equal_contents [OF example_model_t,
          of "fresh_model example_externals example_bad_system"]
  from t have 1: "\<exists>c. model_t_copy example_externals example_model = Inr c \<and> c = example_model"
    by (elim conjE exE) (intro exI conjI, assumption+)
  from t have 2: "\<exists>a. assign_copy example_externals False
      (fresh_model example_externals example_bad_system) example_model = Inr a \<and> a = example_model"
    by (elim conjE exE) (intro exI conjI, assumption+)
  from 1 2 show ?thesis by simp
qed

text \<open>
  C10. For a successfully constructed model, the compile pass that the copy constructor
  and the copy assignment run with a local logger counts no error:
  \<open>assert(log.error_count() == 0)\<close> holds in both.
\<close>

theorem copy_assertion_never_fails:
  assumes "model_t X sys log = (Inr m, log')"
  shows "error_count (snd (compile X (system m) (fresh_model X (system m)) silent_log)) = 0
       \<and> error_count (snd (compile X (system m)
            ((free_memory this)\<lparr>system := system m, vm_variables := vm_variables m\<rparr>) silent_log)) = 0
       \<and> model_t_copy X m \<noteq> Inl Assertion_failure
       \<and> assign_copy X same this m \<noteq> Inl Assertion_failure"
proof -
  note r = recompile_constructed [OF assms]
  have 1: "error_count (snd (compile X (system m) (fresh_model X (system m)) silent_log)) = 0"
    by (simp add: r(1) error_count_silent_log)
  have 2: "error_count (snd (compile X (system m)
            ((free_memory this)\<lparr>system := system m, vm_variables := vm_variables m\<rparr>) silent_log)) = 0"
    by (simp add: r(2) error_count_silent_log)
  have 3: "model_t_copy X m \<noteq> Inl Assertion_failure"
    by (simp add: model_t_copy_def system_fresh_model r(1) error_count_silent_log)
  have 4: "assign_copy X same this m \<noteq> Inl Assertion_failure"
    by (simp add: assign_copy_def r(2) error_count_silent_log)
  from 1 2 3 4 show ?thesis by blast
qed

theorem copy_assertion_never_fails_witness:
  "error_count (snd (compile example_externals example_system
      (fresh_model example_externals example_system) silent_log)) = 0
   \<and> model_t_copy example_externals example_model \<noteq> Inl Assertion_failure
   \<and> assign_copy example_externals False example_model example_model \<noteq> Inl Assertion_failure"
proof -
  have s: "system example_model = example_system" by (simp add: example_model_def)
  from copy_assertion_never_fails [OF example_model_t, of example_model False]
  show ?thesis by (simp add: s)
qed

text \<open>
  C9. After the move constructor and after the move assignment, the six vectors of the
  source are empty and the six vectors of the destination are those the source held.
\<close>

theorem move_empties_source:
  "typed_invariants (snd (model_t_move model)) = []
   \<and> typed_guards (snd (model_t_move model)) = []
   \<and> typed_statements (snd (model_t_move model)) = []
   \<and> invariants_bytecode (snd (model_t_move model)) = []
   \<and> guards_bytecode (snd (model_t_move model)) = []
   \<and> statements_bytecode (snd (model_t_move model)) = []
   \<and> typed_invariants (fst (model_t_move model)) = typed_invariants model
   \<and> typed_guards (fst (model_t_move model)) = typed_guards model
   \<and> typed_statements (fst (model_t_move model)) = typed_statements model
   \<and> invariants_bytecode (fst (model_t_move model)) = invariants_bytecode model
   \<and> guards_bytecode (fst (model_t_move model)) = guards_bytecode model
   \<and> statements_bytecode (fst (model_t_move model)) = statements_bytecode model
   \<and> typed_invariants (snd (assign_move this model)) = []
   \<and> typed_guards (snd (assign_move this model)) = []
   \<and> typed_statements (snd (assign_move this model)) = []
   \<and> invariants_bytecode (snd (assign_move this model)) = []
   \<and> guards_bytecode (snd (assign_move this model)) = []
   \<and> statements_bytecode (snd (assign_move this model)) = []
   \<and> typed_invariants (fst (assign_move this model)) = typed_invariants model
   \<and> typed_guards (fst (assign_move this model)) = typed_guards model
   \<and> typed_statements (fst (assign_move this model)) = typed_statements model
   \<and> invariants_bytecode (fst (assign_move this model)) = invariants_bytecode model
   \<and> guards_bytecode (fst (assign_move this model)) = guards_bytecode model
   \<and> statements_bytecode (fst (assign_move this model)) = statements_bytecode model"
  by (simp add: model_t_move_def assign_move_def moved_from_def)

section \<open>The compiler and bad typed trees\<close>

text \<open>
  C4, as the claim states it, fails: the code calls the compiler on a bad typed tree too.
  In the small instance the invariant \<open>y\<close> types as bad; the code logs the type error
  and then the exception the compiler throws on the bad tree, where the loop that skips
  the compiler on bad trees logs the type error only.
\<close>

theorem compiler_is_run_on_bad_typed_invariant:
  "expression_is_bad example_externals
     (typed_expression_of example_externals () example_bad_system ''y'')
   \<and> log_errors (snd (compile_invariants example_externals example_bad_system
        (fresh_model example_externals example_bad_system) silent_log))
       = [(''Attribute invariant: y'', ''undeclared identifier''),
          (''Attribute invariant: y'', ''invalid expression'')]
   \<and> log_errors (snd (compile_invariants_spec example_externals example_bad_system
        (fresh_model example_externals example_bad_system) silent_log))
       = [(''Attribute invariant: y'', ''undeclared identifier'')]
   \<and> compile_invariants example_externals example_bad_system
        (fresh_model example_externals example_bad_system) silent_log
     \<noteq> compile_invariants_spec example_externals example_bad_system
        (fresh_model example_externals example_bad_system) silent_log"
  by (simp add: example_defs model_defs compile_invariants_spec_def typed_expression_of_def)

lemma loop_errors_member:
  "x \<in> set xs \<Longrightarrow> cmp (tt x) = Inl what \<Longrightarrow> (ctx x, what) \<in> set (loop_errors ctx tt tm cmp xs)"
  by (force simp: loop_errors_def attribute_errors_def)

lemma log_errors_add_errors: "log_errors (add_errors es log) = log_errors log @ es"
  by (simp add: add_errors_def)

text \<open>
  C4, amended. The compiler is called on the typed tree of every attribute, bad or not:
  the bytecode slot of an attribute is the buffer the compiler returned, or stays null
  when the compiler threw, and then the exception is logged as an error under the
  context of the attribute. So when the compiler throws on every bad typed tree, the
  bytecode slot of an attribute whose typed tree is bad is never filled.
\<close>

theorem compiler_is_run_on_every_attribute:
  assumes "well_formed_ids sys"
    and "\<forall>t. expression_is_bad X t \<longrightarrow> (\<exists>what. tchecker_compile_expression X t = Inl what)"
    and "\<forall>t. statement_is_bad X t \<longrightarrow> (\<exists>what. tchecker_compile_statement X t = Inl what)"
  shows "\<exists>m log'. compile X sys (fresh_model X sys) log = (Inr m, log')
     \<and> (\<forall>l\<in>set (locations sys).
          invariants_bytecode m ! loc_id l
            = (case tchecker_compile_expression X
                      (typed_expression_of X (vm_variables_default X) sys (loc_invariant l)) of
                 Inr b \<Rightarrow> Some b | Inl what \<Rightarrow> None)
        \<and> (\<forall>what. tchecker_compile_expression X
                      (typed_expression_of X (vm_variables_default X) sys (loc_invariant l)) = Inl what
              \<longrightarrow> (invariant_context X l, what) \<in> set (log_errors log'))
        \<and> (expression_is_bad X (typed_expression_of X (vm_variables_default X) sys (loc_invariant l))
              \<longrightarrow> invariants_bytecode m ! loc_id l = None))
     \<and> (\<forall>e\<in>set (edges sys).
          guards_bytecode m ! edge_id e
            = (case tchecker_compile_expression X
                      (typed_expression_of X (vm_variables_default X) sys (edge_guard e)) of
                 Inr b \<Rightarrow> Some b | Inl what \<Rightarrow> None)
        \<and> (\<forall>what. tchecker_compile_expression X
                      (typed_expression_of X (vm_variables_default X) sys (edge_guard e)) = Inl what
              \<longrightarrow> (guard_context X e, what) \<in> set (log_errors log'))
        \<and> (expression_is_bad X (typed_expression_of X (vm_variables_default X) sys (edge_guard e))
              \<longrightarrow> guards_bytecode m ! edge_id e = None)
        \<and> statements_bytecode m ! edge_id e
            = (case tchecker_compile_statement X
                      (typed_statement_of X (vm_variables_default X) sys (edge_statement e)) of
                 Inr b \<Rightarrow> Some b | Inl what \<Rightarrow> None)
        \<and> (\<forall>what. tchecker_compile_statement X
                      (typed_statement_of X (vm_variables_default X) sys (edge_statement e)) = Inl what
              \<longrightarrow> (statement_context X e, what) \<in> set (log_errors log'))
        \<and> (statement_is_bad X (typed_statement_of X (vm_variables_default X) sys (edge_statement e))
              \<longrightarrow> statements_bytecode m ! edge_id e = None))"
proof -
  let ?m = "compiled_model X sys (fresh_model X sys)"
  let ?log = "add_errors (system_errors X (vm_variables_default X) sys) log"
  have vmf: "vm_variables (fresh_model X sys) = vm_variables_default X"
    by (simp add: fresh_model_def)
  have c: "compile X sys (fresh_model X sys) log = (Inr ?m, ?log)"
    by (rule compile_fresh_closed [OF well_formed_ids_in_range [OF assms(1)]])
  have L: "invariants_bytecode ?m ! loc_id l
            = (case tchecker_compile_expression X
                      (typed_expression_of X (vm_variables_default X) sys (loc_invariant l)) of
                 Inr b \<Rightarrow> Some b | Inl what \<Rightarrow> None)
        \<and> (\<forall>what. tchecker_compile_expression X
                      (typed_expression_of X (vm_variables_default X) sys (loc_invariant l)) = Inl what
              \<longrightarrow> (invariant_context X l, what) \<in> set (log_errors ?log))
        \<and> (expression_is_bad X (typed_expression_of X (vm_variables_default X) sys (loc_invariant l))
              \<longrightarrow> invariants_bytecode ?m ! loc_id l = None)"
    if l: "l \<in> set (locations sys)" for l
  proof -
    note s = compiled_model_location(2) [OF assms(1) l, of X "fresh_model X sys", unfolded vmf]
    have e: "(invariant_context X l, what) \<in> set (log_errors ?log)"
      if "tchecker_compile_expression X
            (typed_expression_of X (vm_variables_default X) sys (loc_invariant l)) = Inl what" for what
      using loop_errors_member [where x = l and xs = "locations sys" and what = what
              and cmp = "tchecker_compile_expression X" and ctx = "invariant_context X"
              and tt = "\<lambda>l. typed_expression_of X (vm_variables_default X) sys (loc_invariant l)"] l that
      by (simp add: log_errors_add_errors system_errors_def invariants_errors_def)
    have b: "invariants_bytecode ?m ! loc_id l = None"
      if "expression_is_bad X (typed_expression_of X (vm_variables_default X) sys (loc_invariant l))"
      using assms(2) that s by (auto split: sum.splits)
    from s e b show ?thesis by blast
  qed
  have E: "guards_bytecode ?m ! edge_id e
            = (case tchecker_compile_expression X
                      (typed_expression_of X (vm_variables_default X) sys (edge_guard e)) of
                 Inr b \<Rightarrow> Some b | Inl what \<Rightarrow> None)
        \<and> (\<forall>what. tchecker_compile_expression X
                      (typed_expression_of X (vm_variables_default X) sys (edge_guard e)) = Inl what
              \<longrightarrow> (guard_context X e, what) \<in> set (log_errors ?log))
        \<and> (expression_is_bad X (typed_expression_of X (vm_variables_default X) sys (edge_guard e))
              \<longrightarrow> guards_bytecode ?m ! edge_id e = None)
        \<and> statements_bytecode ?m ! edge_id e
            = (case tchecker_compile_statement X
                      (typed_statement_of X (vm_variables_default X) sys (edge_statement e)) of
                 Inr b \<Rightarrow> Some b | Inl what \<Rightarrow> None)
        \<and> (\<forall>what. tchecker_compile_statement X
                      (typed_statement_of X (vm_variables_default X) sys (edge_statement e)) = Inl what
              \<longrightarrow> (statement_context X e, what) \<in> set (log_errors ?log))
        \<and> (statement_is_bad X (typed_statement_of X (vm_variables_default X) sys (edge_statement e))
              \<longrightarrow> statements_bytecode ?m ! edge_id e = None)"
    if e: "e \<in> set (edges sys)" for e
  proof -
    note g = compiled_model_edge(2) [OF assms(1) e, of X "fresh_model X sys", unfolded vmf]
    note s = compiled_model_edge(4) [OF assms(1) e, of X "fresh_model X sys", unfolded vmf]
    have eg: "(guard_context X e, what) \<in> set (log_errors ?log)"
      if "tchecker_compile_expression X
            (typed_expression_of X (vm_variables_default X) sys (edge_guard e)) = Inl what" for what
      using loop_errors_member [where x = e and xs = "edges sys" and what = what
              and cmp = "tchecker_compile_expression X" and ctx = "guard_context X"
              and tt = "\<lambda>e. typed_expression_of X (vm_variables_default X) sys (edge_guard e)"] e that
      by (simp add: log_errors_add_errors system_errors_def guards_errors_def)
    have es: "(statement_context X e, what) \<in> set (log_errors ?log)"
      if "tchecker_compile_statement X
            (typed_statement_of X (vm_variables_default X) sys (edge_statement e)) = Inl what" for what
      using loop_errors_member [where x = e and xs = "edges sys" and what = what
              and cmp = "tchecker_compile_statement X" and ctx = "statement_context X"
              and tt = "\<lambda>e. typed_statement_of X (vm_variables_default X) sys (edge_statement e)"] e that
      by (simp add: log_errors_add_errors system_errors_def statements_errors_def)
    have bg: "guards_bytecode ?m ! edge_id e = None"
      if "expression_is_bad X (typed_expression_of X (vm_variables_default X) sys (edge_guard e))"
      using assms(2) that g by (auto split: sum.splits)
    have bs: "statements_bytecode ?m ! edge_id e = None"
      if "statement_is_bad X (typed_statement_of X (vm_variables_default X) sys (edge_statement e))"
      using assms(3) that s by (auto split: sum.splits)
    from g s eg es bg bs show ?thesis by blast
  qed
  from c L E show ?thesis by blast
qed

lemma example_bad_well_formed: "well_formed_ids example_bad_system"
  by (simp add: well_formed_ids_def example_defs locations_count_def edges_count_def)

theorem compiler_is_run_on_every_attribute_witness:
  "\<exists>m log'. compile example_externals example_bad_system
       (fresh_model example_externals example_bad_system) silent_log = (Inr m, log')
     \<and> invariants_bytecode m ! 0 = None
     \<and> (''Attribute invariant: y'', ''invalid expression'') \<in> set (log_errors log')
     \<and> guards_bytecode m ! 0 = Some [0]"
proof -
  have a: "\<forall>t. expression_is_bad example_externals t
             \<longrightarrow> (\<exists>what. tchecker_compile_expression example_externals t = Inl what)"
    by (simp add: example_externals_def)
  have b: "\<forall>t. statement_is_bad example_externals t
             \<longrightarrow> (\<exists>what. tchecker_compile_statement example_externals t = Inl what)"
    by (simp add: example_externals_def)
  let ?l = "\<lparr>loc_id = 0, loc_invariant = ''y''\<rparr>"
  let ?e = "\<lparr>edge_id = 0, edge_event_id = 0, edge_guard = ''x'', edge_statement = ''nop''\<rparr>"
  have l: "?l \<in> set (locations example_bad_system)" by (simp add: example_defs)
  have e: "?e \<in> set (edges example_bad_system)" by (simp add: example_defs)
  have tl: "tchecker_compile_expression example_externals
      (typed_expression_of example_externals (vm_variables_default example_externals)
         example_bad_system (loc_invariant ?l)) = Inl ''invalid expression''"
    by (simp add: example_defs typed_expression_of_def)
  have te: "tchecker_compile_expression example_externals
      (typed_expression_of example_externals (vm_variables_default example_externals)
         example_bad_system (edge_guard ?e)) = Inr [0]"
    by (simp add: example_defs typed_expression_of_def)
  have c: "invariant_context example_externals ?l = ''Attribute invariant: y''"
    by (simp add: invariant_context_def example_defs)
  from compiler_is_run_on_every_attribute [OF example_bad_well_formed a b, of silent_log]
  obtain m log' where
    1: "compile example_externals example_bad_system
       (fresh_model example_externals example_bad_system) silent_log = (Inr m, log')"
    and 2: "\<forall>l\<in>set (locations example_bad_system).
          invariants_bytecode m ! loc_id l
            = (case tchecker_compile_expression example_externals
                      (typed_expression_of example_externals (vm_variables_default example_externals)
                         example_bad_system (loc_invariant l)) of
                 Inr b \<Rightarrow> Some b | Inl what \<Rightarrow> None)
        \<and> (\<forall>what. tchecker_compile_expression example_externals
                      (typed_expression_of example_externals (vm_variables_default example_externals)
                         example_bad_system (loc_invariant l)) = Inl what
              \<longrightarrow> (invariant_context example_externals l, what) \<in> set (log_errors log'))"
    and 3: "\<forall>e\<in>set (edges example_bad_system).
          guards_bytecode m ! edge_id e
            = (case tchecker_compile_expression example_externals
                      (typed_expression_of example_externals (vm_variables_default example_externals)
                         example_bad_system (edge_guard e)) of
                 Inr b \<Rightarrow> Some b | Inl what \<Rightarrow> None)"
    by blast
  from 2 l tl c have 4: "invariants_bytecode m ! 0 = None
     \<and> (''Attribute invariant: y'', ''invalid expression'') \<in> set (log_errors log')"
    by fastforce
  from 3 e te have 5: "guards_bytecode m ! 0 = Some [0]"
    by fastforce
  from 1 4 5 show ?thesis by blast
qed

section \<open>Statements: constructors and clone\<close>

lemma clone_expression_props:
  "clone_expression e n = (e', n') \<Longrightarrow>
     map_expression (\<lambda>x. ()) e' = map_expression (\<lambda>x. ()) e
   \<and> set_expression e' = {n..<n'} \<and> n < n'"
proof (induction e arbitrary: n e' n')
  case (Int_expression a k)
  then show ?case by auto
next
  case (Var_expression a x)
  then show ?case by auto
next
  case (Array_expression a v x off)
  obtain off' m where c: "clone_expression off (Suc (Suc n)) = (off', m)"
    by (cases "clone_expression off (Suc (Suc n))")
  from Array_expression.IH [OF c] Array_expression.prems c show ?case by auto
next
  case (Unary_expression a op e)
  obtain e1 m where c: "clone_expression e (Suc n) = (e1, m)"
    by (cases "clone_expression e (Suc n)")
  from Unary_expression.IH [OF c] Unary_expression.prems c show ?case by auto
next
  case (Binary_expression a op l r)
  obtain l1 m1 where c1: "clone_expression l (Suc n) = (l1, m1)"
    by (cases "clone_expression l (Suc n)")
  obtain r1 m2 where c2: "clone_expression r m1 = (r1, m2)"
    by (cases "clone_expression r m1")
  from Binary_expression.IH(1) [OF c1] Binary_expression.IH(2) [OF c2] Binary_expression.prems c1 c2
  show ?case by auto
qed

lemma clone_lvalue_expression_props:
  assumes p: "clone_lvalue_expression l n = (l', n')"
  shows "map_lvalue_expression (\<lambda>x. ()) l' = map_lvalue_expression (\<lambda>x. ()) l
   \<and> set_lvalue_expression l' = {n..<n'} \<and> n < n'"
proof (cases l)
  case (Var_lvalue a x)
  with p show ?thesis by auto
next
  case (Array_lvalue a v x off)
  obtain off' m where c: "clone_expression off (Suc (Suc n)) = (off', m)"
    by (cases "clone_expression off (Suc (Suc n))")
  from clone_expression_props [OF c] p c Array_lvalue show ?thesis by auto
qed

lemma do_clone_props:
  "do_clone s n = (s', n') \<Longrightarrow>
     map_statement (\<lambda>x. ()) s' = map_statement (\<lambda>x. ()) s
   \<and> do_output P s' = do_output P s
   \<and> set_statement s' = {n..<n'} \<and> n < n'"
proof (induction s arbitrary: n s' n')
  case (Nop_statement a)
  then show ?case by auto
next
  case (Assign_statement a l r)
  obtain l1 m1 where c1: "clone_lvalue_expression l (Suc n) = (l1, m1)"
    by (cases "clone_lvalue_expression l (Suc n)")
  obtain r1 m2 where c2: "clone_expression r m1 = (r1, m2)"
    by (cases "clone_expression r m1")
  from clone_lvalue_expression_props [OF c1] clone_expression_props [OF c2]
    Assign_statement.prems c1 c2
  show ?case by auto
next
  case (Sequence_statement a f s)
  obtain f1 m1 where c1: "do_clone f (Suc n) = (f1, m1)"
    by (cases "do_clone f (Suc n)")
  obtain s1 m2 where c2: "do_clone s m1 = (s1, m2)"
    by (cases "do_clone s m1")
  from Sequence_statement.IH(1) [OF c1] Sequence_statement.IH(2) [OF c2]
    Sequence_statement.prems c1 c2
  show ?case by auto
qed

text \<open>
  C7. The constructor of an assignment called with a null lvalue or a null rvalue, and the
  constructor of a sequence called with a null first or a null second statement, throw
  \<open>std::invalid_argument\<close>. With two non-null children the constructor returns the
  node, its accessors return the two children, and the nodes of the tree are the new node
  and the nodes of the two children: the node owns both.
\<close>

theorem null_child_rejected:
  "(lv = None \<or> rv = None \<longrightarrow> assign_statement_t this lv rv = Inl Invalid_argument)
   \<and> (s1 = None \<or> s2 = None \<longrightarrow> sequence_statement_t this s1 s2 = Inl Invalid_argument)
   \<and> assign_statement_t this (Some l) (Some r) = Inr (Assign_statement this l r)
   \<and> lvalue (Assign_statement this l r) = Some l
   \<and> rvalue (Assign_statement this l r) = Some r
   \<and> set_statement (Assign_statement this l r)
        = insert this (set_lvalue_expression l \<union> set_expression r)
   \<and> sequence_statement_t this (Some f) (Some s) = Inr (Sequence_statement this f s)
   \<and> first (Sequence_statement this f s) = Some f
   \<and> second (Sequence_statement this f s) = Some s
   \<and> set_statement (Sequence_statement this f s)
        = insert this (set_statement f \<union> set_statement s)"
  by (auto simp: assign_statement_t_def sequence_statement_t_def split: option.splits)

theorem null_child_rejected_witness:
  "assign_statement_t (0::nat) None (Some (Int_expression 1 1)) = Inl Invalid_argument
   \<and> assign_statement_t (0::nat) (Some (Var_lvalue 1 ''x'')) None = Inl Invalid_argument
   \<and> sequence_statement_t (0::nat) (Some (Nop_statement 1)) None = Inl Invalid_argument
   \<and> sequence_statement_t (0::nat) None (Some (Nop_statement 1)) = Inl Invalid_argument
   \<and> assign_statement_t (0::nat) (Some (Var_lvalue 1 ''x'')) (Some (Int_expression 2 1))
       = Inr (Assign_statement 0 (Var_lvalue 1 ''x'') (Int_expression 2 1))
   \<and> sequence_statement_t (0::nat) (Some (Nop_statement 1)) (Some (Nop_statement 2))
       = Inr (Sequence_statement 0 (Nop_statement 1) (Nop_statement 2))"
proof -
  note a = null_child_rejected [where this = "0::nat" and lv = None and rv = "Some (Int_expression 1 1)"
      and ?s1.0 = "Some (Nop_statement 1)" and ?s2.0 = None
      and l = "Var_lvalue 1 ''x''" and r = "Int_expression 2 1"
      and f = "Nop_statement 1" and s = "Nop_statement 2"]
  note b = null_child_rejected [where this = "0::nat" and lv = "Some (Var_lvalue 1 ''x'')" and rv = None
      and ?s1.0 = None and ?s2.0 = "Some (Nop_statement 1)"
      and l = "Var_lvalue 1 ''x''" and r = "Int_expression 2 1"
      and f = "Nop_statement 1" and s = "Nop_statement 2"]
  from a b show ?thesis by simp
qed

text \<open>
  C8. For every statement whose nodes are live (their addresses are below the next free
  address), \<open>clone\<close> returns a tree of the same shape, which \<open>to_string\<close> prints as
  it prints the original, whatever the concrete syntax, and no node of which is a node of
  the original: the nodes of the copy are exactly the addresses allocated by the call.
\<close>

theorem clone_is_deep_copy:
  assumes "\<forall>a\<in>set_statement s. a < n"
  shows "map_statement (\<lambda>x. ()) (fst (clone s n)) = map_statement (\<lambda>x. ()) s
       \<and> to_string P (fst (clone s n)) = to_string P s
       \<and> set_statement (fst (clone s n)) \<inter> set_statement s = {}
       \<and> set_statement (fst (clone s n)) = {n..<snd (clone s n)}
       \<and> n < snd (clone s n)"
proof -
  obtain s' n' where c: "do_clone s n = (s', n')" by (cases "do_clone s n")
  note p = do_clone_props [OF c, of P]
  from p assms have "set_statement s' \<inter> set_statement s = {}" by auto
  with p c show ?thesis by (simp add: clone_def to_string_def)
qed

theorem clone_is_deep_copy_witness:
  "fst (clone example_statement 5)
     = Sequence_statement 5 (Assign_statement 6 (Var_lvalue 7 ''x'') (Int_expression 8 1)) (Nop_statement 9)
   \<and> to_string example_printer (fst (clone example_statement 5)) = ''x=1; nop''
   \<and> to_string example_printer example_statement = ''x=1; nop''
   \<and> set_statement (fst (clone example_statement 5)) \<inter> set_statement example_statement = {}"
proof -
  have h: "\<forall>a\<in>set_statement example_statement. a < 5"
    by (simp add: example_statement_def)
  have 1: "fst (clone example_statement 5)
     = Sequence_statement 5 (Assign_statement 6 (Var_lvalue 7 ''x'') (Int_expression 8 1)) (Nop_statement 9)"
    by (simp add: clone_def example_statement_def eval_nat_numeral)
  have 2: "to_string example_printer example_statement = ''x=1; nop''"
    by (simp add: to_string_def example_statement_def example_printer_def)
  note t = clone_is_deep_copy [OF h, of example_printer]
  from t have a: "to_string example_printer (fst (clone example_statement 5))
      = to_string example_printer example_statement"
    by (elim conjE)
  from t have b: "set_statement (fst (clone example_statement 5)) \<inter> set_statement example_statement = {}"
    by (elim conjE)
  from a 2 have 3: "to_string example_printer (fst (clone example_statement 5)) = ''x=1; nop''"
    by (rule trans)
  from 1 3 2 b show ?thesis by (intro conjI)
qed

end
